theory Spec2Isabelle
  imports Complex_Main
begin

section \<open>Errors\<close>

text \<open>
  Every \<^verbatim>\<open>throw\<close> of the gateway and every exception raised by the runtime under it is a
  value of this type. The constructors stand for the message of the thrown \<^verbatim>\<open>Error\<close>:
  \<^item> \<open>NotAuthenticated\<close>: \<^verbatim>\<open>"Not authenticated. Run 'bun run auth' first."\<close>
  \<^item> \<open>TokenRefreshFailed body\<close>: \<^verbatim>\<open>`Token refresh failed: ${errorText}`\<close>
  \<^item> \<open>ApiError status body\<close>: \<^verbatim>\<open>`API error ${response.status}: ${errorText}`\<close>
  \<^item> \<open>NoResponseBody\<close>: \<^verbatim>\<open>"No response body"\<close>
  \<^item> \<open>AllEndpointsFailed\<close>: \<^verbatim>\<open>"All Antigravity endpoints failed"\<close> and, in the
    streaming call, \<^verbatim>\<open>"All endpoints failed"\<close>
  \<^item> \<open>Thrown msg\<close>: an exception of the runtime (\<^verbatim>\<open>fetch\<close>, \<^verbatim>\<open>reader.read\<close>,
    \<^verbatim>\<open>response.json\<close>, \<^verbatim>\<open>writeFile\<close>) with its message.
\<close>

datatype error =
    NotAuthenticated
  | TokenRefreshFailed string
  | ApiError nat string
  | NoResponseBody
  | AllEndpointsFailed
  | Thrown string

section \<open>Token manager (oauth.ts, storage.ts, client.ts)\<close>

text \<open>
  \<^verbatim>\<open>interface AuthTokens\<close> of oauth.ts. \<open>expiresAt\<close> is a millisecond timestamp; it
  and the clock are unbounded integers here (the source has doubles, which are exact on
  integers below \<open>2 ^ 53\<close>).
\<close>

record AuthTokens =
  accessToken :: string
  refreshToken :: string
  expiresAt :: int
  email :: "string option"
  projectId :: string

text \<open>
  The calls a request makes to the outside, in the order it makes them: the refresh-token
  exchange, the write of the credential file, and the call to one backend host.
\<close>

datatype effect =
    RefreshCall string
  | SaveCall AuthTokens
  | FetchCall string

text \<open>
  \<^verbatim>\<open>isTokenExpired\<close> (oauth.ts): \<^verbatim>\<open>Date.now() > expiresAt - 5 * 60 * 1000\<close>. The clock is the
  first argument.
\<close>

definition isTokenExpired :: "int \<Rightarrow> int \<Rightarrow> bool" where
  "isTokenExpired now expAt \<longleftrightarrow> now > expAt - 5 * 60 * 1000"

text \<open>
  \<^verbatim>\<open>AntigravityClient.ensureValidToken\<close> (client.ts). The state is the field
  \<^verbatim>\<open>this.tokens\<close>. \<open>refresh\<close> stands for \<^verbatim>\<open>refreshAccessToken\<close>, which returns the new access
  token with its expiry or throws; \<open>save\<close> stands for \<^verbatim>\<open>saveTokens\<close>, which returns
  nothing or throws (\<open>Some\<close> is the exception). The result is the returned token or the
  exception, the new value of \<^verbatim>\<open>this.tokens\<close>, and the calls made.
\<close>

definition ensureValidToken ::
  "int \<Rightarrow> (string \<Rightarrow> error + string \<times> int) \<Rightarrow> (AuthTokens \<Rightarrow> error option) \<Rightarrow>
   AuthTokens option \<Rightarrow> (error + string) \<times> AuthTokens option \<times> effect list" where
  "ensureValidToken now refresh save toks =
     (case toks of
        None \<Rightarrow> (Inl NotAuthenticated, None, [])
      | Some t \<Rightarrow>
          if isTokenExpired now (expiresAt t) then
            (case refresh (refreshToken t) of
               Inl e \<Rightarrow> (Inl e, Some t, [RefreshCall (refreshToken t)])
             | Inr (a, x) \<Rightarrow>
                 (let t' = t\<lparr>accessToken := a, expiresAt := x\<rparr> in
                  case save t' of
                    Some e \<Rightarrow> (Inl e, Some t', [RefreshCall (refreshToken t), SaveCall t'])
                  | None \<Rightarrow>
                      (Inr (accessToken t'), Some t',
                       [RefreshCall (refreshToken t), SaveCall t'])))
          else (Inr (accessToken t), Some t, []))"

fun isRefreshCall :: "effect \<Rightarrow> bool" where
  "isRefreshCall (RefreshCall _) = True"
| "isRefreshCall _ = False"

definition refreshCalls :: "effect list \<Rightarrow> effect list" where
  "refreshCalls tr = filter isRefreshCall tr"

section \<open>Values shared by the translators (converter.ts)\<close>

text \<open>
  Numbers of the wire formats (\<^verbatim>\<open>temperature\<close>, \<^verbatim>\<open>max_tokens\<close>, token counts, thinking
  budgets) are exact rationals: the code only copies and compares them and tests them for
  zero. A string is the sequence of the UTF-8 bytes of its text.
\<close>

type_synonym number = rat

text \<open>
  A value of type \<^verbatim>\<open>unknown\<close> or \<^verbatim>\<open>Record<string, unknown>\<close>: what \<^verbatim>\<open>JSON.parse\<close>
  returns. \<^verbatim>\<open>JSON.parse\<close> and \<^verbatim>\<open>JSON.stringify\<close> belong to the runtime; the translators
  take them as arguments (\<open>parse s = None\<close> when \<^verbatim>\<open>JSON.parse(s)\<close> throws).
\<close>

datatype json =
    JNull
  | JBool bool
  | JNum number
  | JStr string
  | JArr "json list"
  | JObj "(string \<times> json) list"

text \<open>Truthiness, as \<^verbatim>\<open>||\<close>, \<^verbatim>\<open>&&\<close> and \<^verbatim>\<open>if\<close> test it.\<close>

fun truthy :: "json \<Rightarrow> bool" where
  "truthy JNull = False"
| "truthy (JBool b) = b"
| "truthy (JNum n) = (n \<noteq> 0)"
| "truthy (JStr s) = (s \<noteq> [])"
| "truthy (JArr _) = True"
| "truthy (JObj _) = True"

text \<open>An optional string is truthy when it is present and not empty.\<close>

fun truthyStr :: "string option \<Rightarrow> bool" where
  "truthyStr None = False"
| "truthyStr (Some s) = (s \<noteq> [])"

text \<open>\<^verbatim>\<open>x || 0\<close> on an optional number.\<close>

fun orZero :: "number option \<Rightarrow> number" where
  "orZero None = 0"
| "orZero (Some n) = n"

text \<open>\<^verbatim>\<open>s.startsWith(p)\<close>, \<^verbatim>\<open>s.includes(p)\<close>, \<^verbatim>\<open>xs.join(sep)\<close>.\<close>

definition startsWith :: "string \<Rightarrow> string \<Rightarrow> bool" where
  "startsWith s p \<longleftrightarrow> take (length p) s = p"

fun includes_str :: "string \<Rightarrow> string \<Rightarrow> bool" where
  "includes_str [] p = (p = [])"
| "includes_str (c # s) p = (startsWith (c # s) p \<or> includes_str s p)"

fun join :: "string \<Rightarrow> string list \<Rightarrow> string" where
  "join sep [] = []"
| "join sep [x] = x"
| "join sep (x # y # ys) = x @ sep @ join sep (y # ys)"

text \<open>
  The code points of a string: each byte that is not a continuation byte (\<open>0x80\<close> to
  \<open>0xBF\<close>) starts one and takes the continuation bytes after it.
\<close>

definition continuation :: "char \<Rightarrow> bool" where
  "continuation c \<longleftrightarrow> (let n = (of_char c :: nat) in 128 \<le> n \<and> n \<le> 191)"

function codePoints :: "string \<Rightarrow> string list" where
  "codePoints [] = []"
| "codePoints (c # s) = (c # takeWhile continuation s) # codePoints (dropWhile continuation s)"
  by pat_completeness auto
termination
  by (relation "measure length") (auto simp: less_Suc_eq_le length_dropWhile_le)

text \<open>
  The line terminators of the language (LF, CR, U+2028, U+2029), which \<^verbatim>\<open>.\<close> of a
  regular expression does not match, and its white space, which \<^verbatim>\<open>trim\<close> removes: the
  line terminators, TAB, VT, FF, SP, U+00A0, U+1680, U+2000 to U+200A, U+202F, U+205F,
  U+3000 and U+FEFF.
\<close>

definition lineTerminator :: "string \<Rightarrow> bool" where
  "lineTerminator cp \<longleftrightarrow>
     cp \<in> set [[CHR 0x0A], [CHR 0x0D],
               [CHR 0xE2, CHR 0x80, CHR 0xA8], [CHR 0xE2, CHR 0x80, CHR 0xA9]]"

definition whiteSpace :: "string \<Rightarrow> bool" where
  "whiteSpace cp \<longleftrightarrow>
     lineTerminator cp \<or>
     cp \<in> set [[CHR 0x09], [CHR 0x0B], [CHR 0x0C], [CHR 0x20],
               [CHR 0xC2, CHR 0xA0], [CHR 0xE1, CHR 0x9A, CHR 0x80],
               [CHR 0xE2, CHR 0x80, CHR 0x80], [CHR 0xE2, CHR 0x80, CHR 0x81],
               [CHR 0xE2, CHR 0x80, CHR 0x82], [CHR 0xE2, CHR 0x80, CHR 0x83],
               [CHR 0xE2, CHR 0x80, CHR 0x84], [CHR 0xE2, CHR 0x80, CHR 0x85],
               [CHR 0xE2, CHR 0x80, CHR 0x86], [CHR 0xE2, CHR 0x80, CHR 0x87],
               [CHR 0xE2, CHR 0x80, CHR 0x88], [CHR 0xE2, CHR 0x80, CHR 0x89],
               [CHR 0xE2, CHR 0x80, CHR 0x8A], [CHR 0xE2, CHR 0x80, CHR 0xAF],
               [CHR 0xE2, CHR 0x81, CHR 0x9F], [CHR 0xE3, CHR 0x80, CHR 0x80],
               [CHR 0xEF, CHR 0xBB, CHR 0xBF]]"

text \<open>\<^verbatim>\<open>s.trim()\<close>.\<close>

definition trim :: "string \<Rightarrow> string" where
  "trim s = concat (rev (dropWhile whiteSpace (rev (dropWhile whiteSpace (codePoints s)))))"

text \<open>
  Reading a property of a parsed value that is not \<^verbatim>\<open>null\<close>: for an object its last
  entry with that key, and \<^verbatim>\<open>undefined\<close> (\<open>None\<close>) when there is none. The keys the
  gateway reads (\<^verbatim>\<open>response\<close>, \<^verbatim>\<open>candidates\<close>, \<^verbatim>\<open>content\<close>, \<^verbatim>\<open>parts\<close>, \<^verbatim>\<open>text\<close>,
  \<^verbatim>\<open>thought\<close>, \<^verbatim>\<open>type\<close>, \<^verbatim>\<open>thinking\<close>, \<^verbatim>\<open>usageMetadata\<close> and the three counts) are
  not properties of arrays, strings, numbers or booleans, so for those the result is
  \<^verbatim>\<open>undefined\<close>. Reading a property of \<^verbatim>\<open>null\<close> throws; the callers test for it.
\<close>

fun getProp :: "json \<Rightarrow> string \<Rightarrow> json option" where
  "getProp (JObj kvs) k = map_of (rev kvs) k"
| "getProp _ k = None"

text \<open>\<^verbatim>\<open>v?.k\<close> and \<^verbatim>\<open>v?.[0]\<close> on a value that may be \<^verbatim>\<open>undefined\<close>. The first element of
  a string is a string (its first code point here); of an object, its property \<^verbatim>\<open>"0"\<close>.\<close>

fun optProp :: "json option \<Rightarrow> string \<Rightarrow> json option" where
  "optProp None k = None"
| "optProp (Some JNull) k = None"
| "optProp (Some v) k = getProp v k"

fun optFirst :: "json option \<Rightarrow> json option" where
  "optFirst None = None"
| "optFirst (Some (JArr [])) = None"
| "optFirst (Some (JArr (x # xs))) = Some x"
| "optFirst (Some (JStr [])) = None"
| "optFirst (Some (JStr (c # s))) = Some (JStr (c # takeWhile continuation s))"
| "optFirst (Some (JObj kvs)) = getProp (JObj kvs) ''0''"
| "optFirst (Some _) = None"

text \<open>Truthiness of a value that may be \<^verbatim>\<open>undefined\<close>.\<close>

fun truthyOpt :: "json option \<Rightarrow> bool" where
  "truthyOpt None = False"
| "truthyOpt (Some v) = truthy v"

section \<open>Request translator (converter.ts)\<close>

text \<open>\<^verbatim>\<open>interface OpenAIMessage\<close>. One element of an array content:\<close>

record ContentItem =
  item_type :: string
  item_text :: "string option"
  item_image_url :: "string option"

datatype MessageContent = Str string | Items "ContentItem list"

text \<open>One entry of \<^verbatim>\<open>tool_calls\<close>: \<^verbatim>\<open>{id, type: "function", function: {name, arguments}}\<close>.\<close>

record ToolCall =
  tc_id :: string
  tc_name :: string
  tc_arguments :: string

text \<open>
  The role is the string the front end delivers (its schema is \<^verbatim>\<open>t.String()\<close>); the
  code compares it with \<^verbatim>\<open>"system"\<close>, \<^verbatim>\<open>"assistant"\<close> and \<^verbatim>\<open>"tool"\<close>.
\<close>

record OpenAIMessage =
  role :: string
  content :: MessageContent
  name :: "string option"
  tool_calls :: "ToolCall list option"
  tool_call_id :: "string option"

text \<open>One entry of \<^verbatim>\<open>tools\<close>: \<^verbatim>\<open>{type, function: {name, description?, parameters?}}\<close>.\<close>

record Tool =
  tool_type :: string
  fn_name :: string
  fn_description :: "string option"
  fn_parameters :: "json option"

text \<open>\<^verbatim>\<open>tool_choice\<close>: \<^verbatim>\<open>"auto"\<close>, \<^verbatim>\<open>"none"\<close> or \<^verbatim>\<open>{type: "function", function: {name}}\<close>.\<close>

datatype ToolChoice = ChoiceAuto | ChoiceNone | ChoiceFunction string

record OpenAIChatRequest =
  model :: string
  messages :: "OpenAIMessage list"
  temperature :: "number option"
  top_p :: "number option"
  max_tokens :: "number option"
  stream :: "bool option"
  tools :: "Tool list option"
  tool_choice :: "ToolChoice option"

text \<open>
  \<^verbatim>\<open>interface AntigravityContent\<close>. Every part the translator builds has exactly one of the
  fields \<^verbatim>\<open>text\<close>, \<^verbatim>\<open>functionCall\<close>, \<^verbatim>\<open>functionResponse\<close>, \<^verbatim>\<open>inlineData\<close>. The response of a
  function-response part is \<^verbatim>\<open>unknown\<close>: a parsed JSON value, or the array content of the
  message as it came.
\<close>

datatype ResponseBody = Json json | RawItems "ContentItem list"

datatype Part =
    Text string
  | FunctionCall string json
  | FunctionResponse string ResponseBody
  | InlineData string string

datatype TurnRole = RoleUser | RoleModel

record AntigravityContent =
  turn_role :: TurnRole
  parts :: "Part list"

record ThinkingConfig =
  includeThoughts :: "bool option"
  thinkingLevel :: "string option"
  thinkingBudget :: "number option"
  include_thoughts :: "bool option"
  thinking_budget :: "number option"

record GenerationConfig =
  gc_temperature :: "number option"
  topP :: "number option"
  topK :: "number option"
  maxOutputTokens :: "number option"
  thinkingConfig :: "ThinkingConfig option"

record FunctionDeclaration =
  fd_name :: string
  fd_description :: string
  fd_parameters :: json

text \<open>\<^verbatim>\<open>toolConfig.functionCallingConfig\<close>.\<close>

record FunctionCallingConfig =
  mode :: "string option"
  allowedFunctionNames :: "string list option"

text \<open>
  \<^verbatim>\<open>interface AntigravityRequest\<close> (\<^verbatim>\<open>GenerateContentRequest\<close> in client.ts).
  \<open>systemInstruction\<close> holds the texts of \<^verbatim>\<open>systemInstruction.parts\<close>, \<open>ag_tools\<close> the
  \<^verbatim>\<open>functionDeclarations\<close> of each entry of \<^verbatim>\<open>tools\<close>, \<open>toolConfig\<close> the
  \<^verbatim>\<open>functionCallingConfig\<close>.
\<close>

record AntigravityRequest =
  contents :: "AntigravityContent list"
  generationConfig :: "GenerationConfig option"
  systemInstruction :: "string list option"
  ag_tools :: "FunctionDeclaration list list option"
  toolConfig :: "FunctionCallingConfig option"

text \<open>
  \<^verbatim>\<open>url.match(/^data:([^;]+);base64,(.+)$/)\<close> behind the guard
  \<^verbatim>\<open>url.startsWith("data:")\<close>. The first group cannot hold a semicolon and must be followed
  by one, so it is the text up to the first semicolon, and it is not empty. The second
  group is the rest after \<^verbatim>\<open>base64,\<close>: not empty and, since \<^verbatim>\<open>.\<close> matches no line
  terminator and \<^verbatim>\<open>$\<close> only the end of the input, free of line terminators.
\<close>

definition matchDataUri :: "string \<Rightarrow> (string \<times> string) option" where
  "matchDataUri url =
     (if \<not> startsWith url ''data:'' then None
      else
        let rest = drop 5 url;
            mime = takeWhile (\<lambda>c. c \<noteq> CHR '';'') rest;
            after = dropWhile (\<lambda>c. c \<noteq> CHR '';'') rest;
            payload = drop 8 after
        in if mime = [] \<or> \<not> startsWith after '';base64,'' \<or> payload = []
              \<or> list_ex lineTerminator (codePoints payload)
           then None
           else Some (mime, payload))"

text \<open>The parts of an array content item (the body of the loop over \<^verbatim>\<open>msg.content\<close>).\<close>

definition itemParts :: "ContentItem \<Rightarrow> Part list" where
  "itemParts item =
     (if item_type item = ''text'' \<and> truthyStr (item_text item)
      then [Text (the (item_text item))]
      else if item_type item = ''image_url'' \<and> truthyStr (item_image_url item)
      then (case matchDataUri (the (item_image_url item)) of
              Some (mimeType, dat) \<Rightarrow> [InlineData mimeType dat]
            | None \<Rightarrow> [])
      else [])"

fun contentParts :: "MessageContent \<Rightarrow> Part list" where
  "contentParts (Str s) = (if s \<noteq> [] then [Text s] else [])"
| "contentParts (Items items) = concat (map itemParts items)"

text \<open>
  The part of one assistant tool call: the arguments parsed, the empty object when
  \<^verbatim>\<open>JSON.parse\<close> throws.
\<close>

definition toolCallPart :: "(string \<Rightarrow> json option) \<Rightarrow> ToolCall \<Rightarrow> Part" where
  "toolCallPart parse toolCall =
     FunctionCall (tc_name toolCall)
       (case parse (tc_arguments toolCall) of Some args \<Rightarrow> args | None \<Rightarrow> JObj [])"

text \<open>
  The response of a tool result: \<^verbatim>\<open>JSON.parse(msg.content)\<close> for a string content,
  \<^verbatim>\<open>{ result: msg.content }\<close> when that throws, the content itself when it is an array.
\<close>

fun toolResponse :: "(string \<Rightarrow> json option) \<Rightarrow> MessageContent \<Rightarrow> ResponseBody" where
  "toolResponse parse (Str s) =
     (case parse s of Some v \<Rightarrow> Json v | None \<Rightarrow> Json (JObj [(''result'', JStr s)]))"
| "toolResponse parse (Items items) = RawItems items"

text \<open>\<^verbatim>\<open>convertMessage\<close>: \<open>None\<close> is \<^verbatim>\<open>null\<close>.\<close>

definition convertMessage ::
  "(string \<Rightarrow> json option) \<Rightarrow> OpenAIMessage \<Rightarrow> AntigravityContent option" where
  "convertMessage parse msg =
     (if role msg = ''tool'' \<and> truthyStr (tool_call_id msg) then
        Some \<lparr>turn_role = RoleUser,
              parts = [FunctionResponse
                         (if truthyStr (name msg) then the (name msg)
                          else the (tool_call_id msg))
                         (toolResponse parse (content msg))]\<rparr>
      else
        let ps = contentParts (content msg) @
                 (if role msg = ''assistant'' then
                    (case tool_calls msg of
                       Some tcs \<Rightarrow> map (toolCallPart parse) tcs
                     | None \<Rightarrow> [])
                  else [])
        in if length ps = 0 then None
           else Some \<lparr>turn_role = (if role msg = ''assistant'' then RoleModel else RoleUser),
                      parts = ps\<rparr>)"

text \<open>\<^verbatim>\<open>convertOpenAIToAntigravity\<close>, in the order of the source.\<close>

definition systemInstructionOf :: "OpenAIMessage list \<Rightarrow> string list option" where
  "systemInstructionOf msgs =
     (let systemMessages = filter (\<lambda>m. role m = ''system'') msgs in
      if length systemMessages > 0 then
        (let systemText =
               join [CHR 0x0A, CHR 0x0A]
                 (map (\<lambda>m. case content m of Str s \<Rightarrow> s | Items _ \<Rightarrow> []) systemMessages)
         in if systemText \<noteq> [] then Some [systemText] else None)
      else None)"

definition contentsOf :: "(string \<Rightarrow> json option) \<Rightarrow> OpenAIMessage list \<Rightarrow> AntigravityContent list" where
  "contentsOf parse msgs =
     (let nonSystemMessages = filter (\<lambda>m. role m \<noteq> ''system'') msgs in
      List.map_filter (convertMessage parse) nonSystemMessages)"

definition generationConfigOf :: "OpenAIChatRequest \<Rightarrow> GenerationConfig option" where
  "generationConfigOf request =
     (if temperature request \<noteq> None \<or> top_p request \<noteq> None \<or> max_tokens request \<noteq> None
      then Some \<lparr>gc_temperature = temperature request, topP = top_p request, topK = None,
                 maxOutputTokens = max_tokens request, thinkingConfig = None\<rparr>
      else None)"

definition functionDeclarationOf :: "Tool \<Rightarrow> FunctionDeclaration" where
  "functionDeclarationOf t =
     \<lparr>fd_name = fn_name t,
      fd_description = (if truthyStr (fn_description t) then the (fn_description t) else []),
      fd_parameters =
        (case fn_parameters t of
           Some p \<Rightarrow>
             if truthy p then p
             else JObj [(''type'', JStr ''object''), (''properties'', JObj [])]
         | None \<Rightarrow> JObj [(''type'', JStr ''object''), (''properties'', JObj [])])\<rparr>"

fun toolChoiceConfig :: "ToolChoice \<Rightarrow> FunctionCallingConfig" where
  "toolChoiceConfig ChoiceNone = \<lparr>mode = Some ''NONE'', allowedFunctionNames = None\<rparr>"
| "toolChoiceConfig ChoiceAuto = \<lparr>mode = Some ''AUTO'', allowedFunctionNames = None\<rparr>"
| "toolChoiceConfig (ChoiceFunction f) = \<lparr>mode = Some ''ANY'', allowedFunctionNames = Some [f]\<rparr>"

definition convertOpenAIToAntigravity ::
  "(string \<Rightarrow> json option) \<Rightarrow> OpenAIChatRequest \<Rightarrow> AntigravityRequest" where
  "convertOpenAIToAntigravity parse request =
     (let hasTools = (case tools request of Some ts \<Rightarrow> length ts > 0 | None \<Rightarrow> False);
          functionDeclarations =
            map functionDeclarationOf
              (filter (\<lambda>t. tool_type t = ''function'') (case tools request of Some ts \<Rightarrow> ts | None \<Rightarrow> []))
      in \<lparr>contents = contentsOf parse (messages request),
          generationConfig = generationConfigOf request,
          systemInstruction = systemInstructionOf (messages request),
          ag_tools = (if hasTools \<and> length functionDeclarations > 0
                      then Some [functionDeclarations] else None),
          toolConfig = (if hasTools then map_option toolChoiceConfig (tool_choice request)
                        else None)\<rparr>)"

section \<open>Model registry (constants.ts) and request preparation (client.ts)\<close>

text \<open>
  One entry of \<^verbatim>\<open>AVAILABLE_MODELS\<close>, with the fields the client reads; \<^verbatim>\<open>display_name\<close>,
  \<^verbatim>\<open>description\<close>, \<^verbatim>\<open>object\<close>, \<^verbatim>\<open>type\<close> and \<^verbatim>\<open>created\<close> are left out. An entry has
  \<^verbatim>\<open>thinkingLevel\<close>, or \<^verbatim>\<open>thinkingBudget\<close>, or neither.
\<close>

record ModelInfo =
  owned_by :: string
  context_length :: nat
  m_thinkingLevel :: "string option"
  m_thinkingBudget :: "number option"

definition AVAILABLE_MODELS :: "(string \<times> ModelInfo) list" where
  "AVAILABLE_MODELS =
     [(''gemini-3-pro-low'',
         \<lparr>owned_by = ''google'', context_length = 1000000,
          m_thinkingLevel = Some ''low'', m_thinkingBudget = None\<rparr>),
      (''gemini-3-pro-high'',
         \<lparr>owned_by = ''google'', context_length = 1000000,
          m_thinkingLevel = Some ''high'', m_thinkingBudget = None\<rparr>),
      (''gemini-3-flash'',
         \<lparr>owned_by = ''google'', context_length = 1000000,
          m_thinkingLevel = None, m_thinkingBudget = None\<rparr>),
      (''claude-sonnet-4-5'',
         \<lparr>owned_by = ''anthropic'', context_length = 200000,
          m_thinkingLevel = None, m_thinkingBudget = None\<rparr>),
      (''claude-sonnet-4-5-thinking-low'',
         \<lparr>owned_by = ''anthropic'', context_length = 200000,
          m_thinkingLevel = None, m_thinkingBudget = Some 8192\<rparr>),
      (''claude-sonnet-4-5-thinking-medium'',
         \<lparr>owned_by = ''anthropic'', context_length = 200000,
          m_thinkingLevel = None, m_thinkingBudget = Some 16384\<rparr>),
      (''claude-sonnet-4-5-thinking-high'',
         \<lparr>owned_by = ''anthropic'', context_length = 200000,
          m_thinkingLevel = None, m_thinkingBudget = Some 32768\<rparr>),
      (''claude-opus-4-5-thinking-low'',
         \<lparr>owned_by = ''anthropic'', context_length = 200000,
          m_thinkingLevel = None, m_thinkingBudget = Some 8192\<rparr>),
      (''claude-opus-4-5-thinking-medium'',
         \<lparr>owned_by = ''anthropic'', context_length = 200000,
          m_thinkingLevel = None, m_thinkingBudget = Some 16384\<rparr>),
      (''claude-opus-4-5-thinking-high'',
         \<lparr>owned_by = ''anthropic'', context_length = 200000,
          m_thinkingLevel = None, m_thinkingBudget = Some 32768\<rparr>),
      (''gpt-oss-120b-medium'',
         \<lparr>owned_by = ''google'', context_length = 128000,
          m_thinkingLevel = None, m_thinkingBudget = None\<rparr>)]"

text \<open>\<^verbatim>\<open>s.toLowerCase()\<close> on the letters A to Z.\<close>

definition toLowerChar :: "char \<Rightarrow> char" where
  "toLowerChar c =
     (let n = (of_char c :: nat) in if 65 \<le> n \<and> n \<le> 90 then char_of (n + 32) else c)"

definition toLowerCase :: "string \<Rightarrow> string" where
  "toLowerCase s = map toLowerChar s"

text \<open>
  \<^verbatim>\<open>AntigravityClient.resolveModel\<close>: the model id as it is, the thinking setting of its
  registry entry (\<^verbatim>\<open>thinkingLevel\<close> is looked for first), and whether the id names the
  thinking-budget family.
\<close>

record ResolvedThinking =
  rt_thinkingLevel :: "string option"
  rt_thinkingBudget :: "number option"

definition resolveModel :: "string \<Rightarrow> string \<times> ResolvedThinking option \<times> bool" where
  "resolveModel modelId =
     (let modelInfo = map_of AVAILABLE_MODELS modelId;
          isClaude = includes_str (toLowerCase modelId) ''claude'';
          thinking =
            (case modelInfo of
               None \<Rightarrow> None
             | Some info \<Rightarrow>
                 if m_thinkingLevel info \<noteq> None
                 then Some \<lparr>rt_thinkingLevel = m_thinkingLevel info, rt_thinkingBudget = None\<rparr>
                 else if m_thinkingBudget info \<noteq> None
                 then Some \<lparr>rt_thinkingLevel = None, rt_thinkingBudget = m_thinkingBudget info\<rparr>
                 else None)
      in (modelId, thinking, isClaude))"

text \<open>
  The request as \<^verbatim>\<open>generateContent\<close> and \<^verbatim>\<open>streamGenerateContent\<close> change it before they
  send it: the block "Apply thinking config" and the block "Configure Claude tool calling
  mode", which are the same text in both functions.
\<close>

definition emptyGenerationConfig :: GenerationConfig where
  "emptyGenerationConfig =
     \<lparr>gc_temperature = None, topP = None, topK = None, maxOutputTokens = None,
      thinkingConfig = None\<rparr>"

definition applyThinkingConfig ::
  "ResolvedThinking option \<Rightarrow> bool \<Rightarrow> AntigravityRequest \<Rightarrow> AntigravityRequest" where
  "applyThinkingConfig thinking isClaude request =
     (case thinking of
        None \<Rightarrow> request
      | Some tc \<Rightarrow>
          (let gc = (case generationConfig request of Some g \<Rightarrow> g | None \<Rightarrow> emptyGenerationConfig)
           in if isClaude \<and> orZero (rt_thinkingBudget tc) \<noteq> 0 then
                request\<lparr>generationConfig := Some (gc
                  \<lparr>thinkingConfig := Some
                      \<lparr>includeThoughts = None, thinkingLevel = None, thinkingBudget = None,
                       include_thoughts = Some True,
                       thinking_budget = rt_thinkingBudget tc\<rparr>,
                   maxOutputTokens := Some (max (orZero (maxOutputTokens gc)) 65536)\<rparr>)\<rparr>
              else if truthyStr (rt_thinkingLevel tc) then
                request\<lparr>generationConfig := Some (gc
                  \<lparr>thinkingConfig := Some
                      \<lparr>includeThoughts = Some True, thinkingLevel = rt_thinkingLevel tc,
                       thinkingBudget = None, include_thoughts = None,
                       thinking_budget = None\<rparr>\<rparr>)\<rparr>
              else request\<lparr>generationConfig := Some gc\<rparr>))"

definition applyToolMode :: "bool \<Rightarrow> AntigravityRequest \<Rightarrow> AntigravityRequest" where
  "applyToolMode isClaude request =
     (if isClaude \<and> (case ag_tools request of Some ts \<Rightarrow> length ts > 0 | None \<Rightarrow> False)
      then request\<lparr>toolConfig := Some \<lparr>mode = Some ''VALIDATED'', allowedFunctionNames = None\<rparr>\<rparr>
      else request)"

definition prepareRequest :: "string \<Rightarrow> AntigravityRequest \<Rightarrow> AntigravityRequest" where
  "prepareRequest modelId request =
     (case resolveModel modelId of
        (actualModel, thinking, isClaude) \<Rightarrow>
          applyToolMode isClaude (applyThinkingConfig thinking isClaude request))"

text \<open>
  Whether the streaming call adds the header \<^verbatim>\<open>anthropic-beta\<close>:
  \<^verbatim>\<open>isClaude && thinkingConfig?.thinkingBudget\<close>.
\<close>

definition interleavedThinkingHeader :: "string \<Rightarrow> bool" where
  "interleavedThinkingHeader modelId =
     (case resolveModel modelId of
        (actualModel, thinking, isClaude) \<Rightarrow>
          isClaude \<and> (case thinking of Some tc \<Rightarrow> orZero (rt_thinkingBudget tc) \<noteq> 0 | None \<Rightarrow> False))"

section \<open>Endpoint dispatcher, single-shot call (client.ts)\<close>

text \<open>
  What one \<^verbatim>\<open>fetch\<close> does: it rejects with a message, or it resolves to a response with
  a status, the text \<^verbatim>\<open>response.text()\<close> gives, and a payload. For the single-shot call
  the payload is what \<^verbatim>\<open>response.json()\<close> gives: an exception message, or the parsed
  data. \<^verbatim>\<open>data.response || data\<close> returns the field \<^verbatim>\<open>response\<close> when the data has a truthy
  one and the data itself otherwise.
\<close>

record 'b HttpResponse =
  status :: nat
  errorText :: string
  payload :: 'b

datatype 'b FetchResult = Rejects string | Resolves "'b HttpResponse"

datatype 'r Reply = Enveloped 'r | Bare 'r

fun unwrap :: "'r Reply \<Rightarrow> 'r" where
  "unwrap (Enveloped r) = r"
| "unwrap (Bare d) = d"

text \<open>\<^verbatim>\<open>response.ok\<close>, and the statuses after which the next host is tried.\<close>

definition ok :: "nat \<Rightarrow> bool" where
  "ok st \<longleftrightarrow> 200 \<le> st \<and> st \<le> 299"

definition retryable :: "nat \<Rightarrow> bool" where
  "retryable st \<longleftrightarrow> st = 403 \<or> st = 404 \<or> st \<ge> 500"

text \<open>
  \<^verbatim>\<open>endpoint === ANTIGRAVITY_ENDPOINTS[ANTIGRAVITY_ENDPOINTS.length - 1]\<close>: a comparison
  of host names with the last entry of the list.
\<close>

definition lastEndpoint :: "string list \<Rightarrow> string \<Rightarrow> bool" where
  "lastEndpoint endpoints endpoint \<longleftrightarrow> endpoints \<noteq> [] \<and> endpoint = last endpoints"

text \<open>\<^verbatim>\<open>ANTIGRAVITY_ENDPOINTS\<close> (constants.ts): daily, autopush, prod.\<close>

definition ANTIGRAVITY_ENDPOINTS :: "string list" where
  "ANTIGRAVITY_ENDPOINTS =
     [''https://daily-cloudcode-pa.sandbox.googleapis.com'',
      ''https://autopush-cloudcode-pa.sandbox.googleapis.com'',
      ''https://cloudcode-pa.googleapis.com'']"

text \<open>
  The loop "Try endpoints in order" of \<^verbatim>\<open>generateContent\<close>. The second argument pairs each
  host still to try with what its \<^verbatim>\<open>fetch\<close> does; the first is the whole list
  \<^verbatim>\<open>ANTIGRAVITY_ENDPOINTS\<close>. The \<^verbatim>\<open>continue\<close> after a retryable status leaves the
  \<^verbatim>\<open>try\<close> block without entering \<^verbatim>\<open>catch\<close>. Every exception raised inside the
  \<^verbatim>\<open>try\<close> block, the \<^verbatim>\<open>API error\<close> thrown there included, enters \<^verbatim>\<open>catch\<close>, which
  rethrows it on the last host and otherwise lets the loop go on. The result is the
  returned value or the exception, and the calls made.
\<close>

fun tryEndpoints ::
  "string list \<Rightarrow> (string \<times> (string + 'r Reply) FetchResult) list \<Rightarrow> (error + 'r) \<times> effect list" where
  "tryEndpoints endpoints [] = (Inl AllEndpointsFailed, [])"
| "tryEndpoints endpoints ((endpoint, res) # rest) =
     (case (case res of
              Rejects msg \<Rightarrow> Inl (Some (Thrown msg))
            | Resolves response \<Rightarrow>
                if ok (status response) then
                  (case payload response of
                     Inl msg \<Rightarrow> Inl (Some (Thrown msg))
                   | Inr data \<Rightarrow> Inr (unwrap data))
                else if retryable (status response) then Inl None
                else Inl (Some (ApiError (status response) (errorText response)))) of
        Inr v \<Rightarrow> (Inr v, [FetchCall endpoint])
      | Inl None \<Rightarrow>
          (case tryEndpoints endpoints rest of (r, tr) \<Rightarrow> (r, FetchCall endpoint # tr))
      | Inl (Some err) \<Rightarrow>
          if lastEndpoint endpoints endpoint then (Inl err, [FetchCall endpoint])
          else (case tryEndpoints endpoints rest of (r, tr) \<Rightarrow> (r, FetchCall endpoint # tr)))"

text \<open>
  \<^verbatim>\<open>AntigravityClient.generateContent\<close>: the token, the request as prepared, the loop over
  the hosts. Each host answers the prepared request.
\<close>

definition generateContent ::
  "int \<Rightarrow> (string \<Rightarrow> error + string \<times> int) \<Rightarrow> (AuthTokens \<Rightarrow> error option) \<Rightarrow>
   AuthTokens option \<Rightarrow>
   (string \<times> (AntigravityRequest \<Rightarrow> (string + 'r Reply) FetchResult)) list \<Rightarrow>
   string \<Rightarrow> AntigravityRequest \<Rightarrow> (error + 'r) \<times> AuthTokens option \<times> effect list" where
  "generateContent now refresh save toks hosts modelId request =
     (case ensureValidToken now refresh save toks of
        (Inl e, toks', tr) \<Rightarrow> (Inl e, toks', tr)
      | (Inr accessTok, toks', tr) \<Rightarrow>
          (let request' = prepareRequest modelId request in
           case tryEndpoints (map fst hosts) (map (\<lambda>(endpoint, h). (endpoint, h request')) hosts) of
             (r, calls) \<Rightarrow> (r, toks', tr @ calls)))"

section \<open>Response translator (converter.ts)\<close>

text \<open>
  The parameter type of \<^verbatim>\<open>convertAntigravityToOpenAI\<close>. A function call is its name and
  its optional arguments.
\<close>

record ResponsePart =
  rp_text :: "string option"
  rp_thought :: "bool option"
  rp_functionCall :: "(string \<times> json option) option"

record ResponseContent =
  rc_parts :: "ResponsePart list option"

record Candidate =
  cand_content :: "ResponseContent option"
  finishReason :: "string option"

record UsageMetadata =
  promptTokenCount :: "number option"
  candidatesTokenCount :: "number option"
  totalTokenCount :: "number option"

record BackendResponse =
  candidates :: "Candidate list option"
  usageMetadata :: "UsageMetadata option"

text \<open>\<^verbatim>\<open>interface OpenAIChoice\<close> and \<^verbatim>\<open>interface OpenAIChatResponse\<close>.\<close>

record OpenAIToolCall =
  otc_id :: string
  otc_name :: string
  otc_arguments :: string

record ChoiceMessage =
  msg_content :: "string option"
  msg_tool_calls :: "OpenAIToolCall list option"

datatype FinishReason = Stop | Length | ToolCalls | ContentFilter

record OpenAIChoice =
  choice_index :: nat
  message :: ChoiceMessage
  finish_reason :: "FinishReason option"

record Usage =
  prompt_tokens :: number
  completion_tokens :: number
  total_tokens :: number

record OpenAIChatResponse =
  resp_id :: string
  created :: int
  resp_model :: string
  choices :: "OpenAIChoice list"
  usage :: "Usage option"

text \<open>
  The body of the loop over the parts of the first candidate. The state is the text and
  the tool calls collected so far. \<open>uuid k\<close> is what the \<open>k\<close>-th call of
  \<^verbatim>\<open>crypto.randomUUID()\<close> returns, \<open>off\<close> the number of calls made before the loop.
\<close>

definition partStep ::
  "(nat \<Rightarrow> string) \<Rightarrow> (json \<Rightarrow> string) \<Rightarrow> nat \<Rightarrow>
   string \<times> OpenAIToolCall list \<Rightarrow> ResponsePart \<Rightarrow> string \<times> OpenAIToolCall list" where
  "partStep uuid stringify off acc part =
     (case acc of
        (text, toolCalls) \<Rightarrow>
          if rp_thought part = Some True then (text, toolCalls)
          else
            (text @ (if truthyStr (rp_text part) then the (rp_text part) else []),
             toolCalls @
               (case rp_functionCall part of
                  None \<Rightarrow> []
                | Some (fname, args) \<Rightarrow>
                    [\<lparr>otc_id = ''call_'' @ take 8 (uuid (off + length toolCalls)),
                      otc_name = fname,
                      otc_arguments =
                        stringify (case args of
                                     Some a \<Rightarrow> if truthy a then a else JObj []
                                   | None \<Rightarrow> JObj [])\<rparr>])))"

text \<open>\<^verbatim>\<open>candidate.content?.parts || []\<close>.\<close>

definition candidateParts :: "Candidate \<Rightarrow> ResponsePart list" where
  "candidateParts candidate =
     (case cand_content candidate of
        None \<Rightarrow> []
      | Some c \<Rightarrow> (case rc_parts c of None \<Rightarrow> [] | Some ps \<Rightarrow> ps))"

text \<open>The choice built from the first candidate.\<close>

definition choiceOf ::
  "(nat \<Rightarrow> string) \<Rightarrow> (json \<Rightarrow> string) \<Rightarrow> nat \<Rightarrow> Candidate \<Rightarrow> OpenAIChoice" where
  "choiceOf uuid stringify off candidate =
     (let ps = candidateParts candidate
      in case foldl (partStep uuid stringify off) ([], []) ps of
           (text, toolCalls) \<Rightarrow>
             \<lparr>choice_index = 0,
              message =
                \<lparr>msg_content = (if text \<noteq> [] then Some text else None),
                 msg_tool_calls = (if length toolCalls > 0 then Some toolCalls else None)\<rparr>,
              finish_reason =
                Some (if finishReason candidate = Some ''MAX_TOKENS'' then Length
                      else if length toolCalls > 0 then ToolCalls
                      else Stop)\<rparr>)"

text \<open>
  \<^verbatim>\<open>convertAntigravityToOpenAI\<close>. \<open>now\<close> is \<^verbatim>\<open>Date.now()\<close>. The id takes the first UUID
  when no truthy \<^verbatim>\<open>requestId\<close> is given.
\<close>

definition convertAntigravityToOpenAI ::
  "(nat \<Rightarrow> string) \<Rightarrow> (json \<Rightarrow> string) \<Rightarrow> int \<Rightarrow>
   BackendResponse \<Rightarrow> string \<Rightarrow> string option \<Rightarrow> OpenAIChatResponse" where
  "convertAntigravityToOpenAI uuid stringify now response modelId requestId =
     \<lparr>resp_id = (if truthyStr requestId then the requestId else ''chatcmpl-'' @ uuid 0),
      created = now div 1000,
      resp_model = modelId,
      choices =
        (case candidates response of
           Some (candidate # _) \<Rightarrow>
             [choiceOf uuid stringify (if truthyStr requestId then 0 else 1) candidate]
         | _ \<Rightarrow> []),
      usage =
        (case usageMetadata response of
           Some u \<Rightarrow>
             Some \<lparr>prompt_tokens = orZero (promptTokenCount u),
                   completion_tokens = orZero (candidatesTokenCount u),
                   total_tokens = orZero (totalTokenCount u)\<rparr>
         | None \<Rightarrow> None)\<rparr>"

section \<open>Stream translator and streaming dispatch (client.ts)\<close>

text \<open>
  \<^verbatim>\<open>interface StreamChunk\<close>: the tag has four values, and the usage counts are an optional
  field of the chunk. The interface declares the texts as strings and the counts as
  numbers; the stream loop fills them with whatever the parsed record holds, so they are
  JSON values here.
\<close>

datatype ChunkType = Content | Thinking | Done | Error

record ChunkUsage =
  promptTokens :: "json option"
  completionTokens :: "json option"
  totalTokens :: "json option"

record StreamChunk =
  chunk_type :: ChunkType
  chunk_content :: "json option"
  chunk_thinking :: "json option"
  chunk_error :: "error option"
  chunk_usage :: "ChunkUsage option"

text \<open>The five object literals the generator yields.\<close>

definition contentChunk :: "json \<Rightarrow> StreamChunk" where
  "contentChunk v =
     \<lparr>chunk_type = Content, chunk_content = Some v, chunk_thinking = None,
      chunk_error = None, chunk_usage = None\<rparr>"

definition thinkingChunk :: "json \<Rightarrow> StreamChunk" where
  "thinkingChunk v =
     \<lparr>chunk_type = Thinking, chunk_content = None, chunk_thinking = Some v,
      chunk_error = None, chunk_usage = None\<rparr>"

definition usageChunk :: "json \<Rightarrow> StreamChunk" where
  "usageChunk u =
     \<lparr>chunk_type = Content, chunk_content = None, chunk_thinking = None,
      chunk_error = None,
      chunk_usage = Some \<lparr>promptTokens = getProp u ''promptTokenCount'',
                          completionTokens = getProp u ''candidatesTokenCount'',
                          totalTokens = getProp u ''totalTokenCount''\<rparr>\<rparr>"

definition doneChunk :: StreamChunk where
  "doneChunk =
     \<lparr>chunk_type = Done, chunk_content = None, chunk_thinking = None,
      chunk_error = None, chunk_usage = None\<rparr>"

definition errorChunk :: "error \<Rightarrow> StreamChunk" where
  "errorChunk e =
     \<lparr>chunk_type = Error, chunk_content = None, chunk_thinking = None,
      chunk_error = Some e, chunk_usage = None\<rparr>"

text \<open>
  The parsed record is cast to its declared type without a check, so the loop works on
  whatever \<^verbatim>\<open>JSON.parse\<close> returned. The chunk of one part that is not \<^verbatim>\<open>null\<close>, if it
  yields one: \<^verbatim>\<open>part.thought === true || part.type === "thinking"\<close> gives a thinking chunk
  with \<^verbatim>\<open>part.text || part.thinking || ""\<close>, a truthy \<^verbatim>\<open>part.text\<close> otherwise a content
  chunk.
\<close>

definition partChunks :: "json \<Rightarrow> StreamChunk list" where
  "partChunks part =
     (if getProp part ''thought'' = Some (JBool True) \<or>
         getProp part ''type'' = Some (JStr ''thinking'') then
        [thinkingChunk
           (if truthyOpt (getProp part ''text'') then the (getProp part ''text'')
            else if truthyOpt (getProp part ''thinking'') then the (getProp part ''thinking'')
            else JStr [])]
      else if truthyOpt (getProp part ''text'') then [contentChunk (the (getProp part ''text''))]
      else [])"

text \<open>
  The loop over the elements of a parts array: the chunks yielded, and whether the loop
  ran to its end. On an element that is \<^verbatim>\<open>null\<close> the test \<^verbatim>\<open>part.thought === true\<close> throws;
  the exception leaves the loop and is caught by the \<^verbatim>\<open>catch\<close> around the record, after the
  chunks of the elements before it have been yielded.
\<close>

fun partsLoop :: "json list \<Rightarrow> StreamChunk list \<times> bool" where
  "partsLoop [] = ([], True)"
| "partsLoop (JNull # ps) = ([], False)"
| "partsLoop (part # ps) = (case partsLoop ps of (cs, finished) \<Rightarrow> (partChunks part @ cs, finished))"

text \<open>\<^verbatim>\<open>response?.candidates?.[0]?.content?.parts\<close>.\<close>

definition firstParts :: "json option \<Rightarrow> json option" where
  "firstParts response =
     optProp (optProp (optFirst (optProp response ''candidates'')) ''content'') ''parts''"

text \<open>The block "Include usage if available": \<^verbatim>\<open>if (response.usageMetadata)\<close>.\<close>

definition usageChunks :: "json \<Rightarrow> StreamChunk list" where
  "usageChunks response =
     (case getProp response ''usageMetadata'' of
        Some u \<Rightarrow> if truthy u then [usageChunk u] else []
      | None \<Rightarrow> [])"

text \<open>
  The chunks of one parsed record: the body of the inner \<^verbatim>\<open>try\<close> after \<^verbatim>\<open>JSON.parse\<close>.
  \<^verbatim>\<open>data.response\<close> throws when the record is \<^verbatim>\<open>null\<close>. The guard
  \<^verbatim>\<open>if (!response?.candidates?.[0]?.content?.parts) continue\<close> comes before the parts and
  before the usage block. A parts value that passes it is an array, whose elements the
  loop visits; or a string, whose characters yield nothing; or an object, a number or
  \<^verbatim>\<open>true\<close>, on which \<^verbatim>\<open>for ... of\<close> throws. Every exception is swallowed by the empty
  \<^verbatim>\<open>catch\<close>, which skips the rest of the record, the usage block included.
\<close>

definition recordChunks :: "json \<Rightarrow> StreamChunk list" where
  "recordChunks d =
     (if d = JNull then []
      else
        (case firstParts (getProp d ''response'') of
           None \<Rightarrow> []
         | Some partsValue \<Rightarrow>
             if \<not> truthy partsValue then []
             else
               (case partsValue of
                  JArr ps \<Rightarrow>
                    (case partsLoop ps of
                       (cs, finished) \<Rightarrow>
                         if finished then cs @ usageChunks (the (getProp d ''response''))
                         else cs)
                | JStr s \<Rightarrow> usageChunks (the (getProp d ''response''))
                | _ \<Rightarrow> [])))"

text \<open>\<^verbatim>\<open>s.split("\n")\<close>, which returns at least one segment.\<close>

fun splitLines :: "string \<Rightarrow> string list" where
  "splitLines [] = [[]]"
| "splitLines (c # s) =
     (if c = CHR 0x0A then [] # splitLines s
      else (case splitLines s of
              l # ls \<Rightarrow> (c # l) # ls
            | [] \<Rightarrow> [[c]]))"

text \<open>One complete line: the body of the loop over \<^verbatim>\<open>lines\<close>.\<close>

definition lineChunks :: "(string \<Rightarrow> json option) \<Rightarrow> string \<Rightarrow> StreamChunk list" where
  "lineChunks parse line =
     (if \<not> startsWith line ''data:'' then []
      else
        let jsonStr = trim (drop 5 line) in
        if jsonStr = [] then []
        else (case parse jsonStr of None \<Rightarrow> [] | Some d \<Rightarrow> recordChunks d))"

text \<open>
  The body of a response is a sequence of reads that ends with the end of the stream or
  with a read that throws.
\<close>

datatype StreamEnd = EndOfStream | ReadFault string

datatype Body = Body "string list" StreamEnd

text \<open>
  One read of the loop \<^verbatim>\<open>while (true)\<close>: the text read is appended to the carry-over
  buffer, the buffer is split at line feeds, the last segment becomes the new buffer
  (\<^verbatim>\<open>lines.pop() || ""\<close>) and the segments before it are processed as lines. The
  result is the chunks yielded and the new buffer.
\<close>

definition readStep ::
  "(string \<Rightarrow> json option) \<Rightarrow> string \<Rightarrow> string \<Rightarrow> StreamChunk list \<times> string" where
  "readStep parse buffer v =
     (let segs = splitLines (buffer @ v)
      in (concat (map (lineChunks parse) (butlast segs)), last segs))"

text \<open>
  The loop over the reads, from a carry-over buffer: the chunks yielded, and the
  exception that left the loop if one did. After the end of the stream the generator
  yields \<^verbatim>\<open>done\<close> and returns.
\<close>

fun readLoop ::
  "(string \<Rightarrow> json option) \<Rightarrow> string \<Rightarrow> string list \<Rightarrow> StreamEnd \<Rightarrow>
   StreamChunk list \<times> error option" where
  "readLoop parse buffer [] EndOfStream = ([doneChunk], None)"
| "readLoop parse buffer [] (ReadFault msg) = ([], Some (Thrown msg))"
| "readLoop parse buffer (v # vs) e =
     (case readStep parse buffer v of
        (cs, buffer') \<Rightarrow>
          (case readLoop parse buffer' vs e of (cs', r) \<Rightarrow> (cs @ cs', r)))"

text \<open>
  \<^verbatim>\<open>lastError?.message || "All endpoints failed"\<close>: the message of the last exception,
  unless there was none or its message is empty.
\<close>

fun finalError :: "error option \<Rightarrow> error" where
  "finalError None = AllEndpointsFailed"
| "finalError (Some (Thrown [])) = AllEndpointsFailed"
| "finalError (Some e) = e"

text \<open>
  The loop "Try endpoints in order" of \<^verbatim>\<open>streamGenerateContent\<close>. The \<^verbatim>\<open>try\<close> block holds
  the call, the status checks and the whole loop over the reads; \<^verbatim>\<open>catch\<close> stores the
  exception in \<^verbatim>\<open>lastError\<close>, yields the error chunk and returns on the last host, and
  otherwise lets the loop go on with the next host. The result is the chunks yielded and
  the calls made.
\<close>

fun streamEndpoints ::
  "(string \<Rightarrow> json option) \<Rightarrow> string list \<Rightarrow> error option \<Rightarrow>
   (string \<times> (Body option) FetchResult) list \<Rightarrow> StreamChunk list \<times> effect list" where
  "streamEndpoints parse endpoints lastError [] = ([errorChunk (finalError lastError)], [])"
| "streamEndpoints parse endpoints lastError ((endpoint, res) # rest) =
     (case (case res of
              Rejects msg \<Rightarrow> ([], Some (Some (Thrown msg)))
            | Resolves response \<Rightarrow>
                if \<not> ok (status response) then
                  (if retryable (status response) then ([], Some None)
                   else ([], Some (Some (ApiError (status response) (errorText response)))))
                else
                  (case payload response of
                     None \<Rightarrow> ([], Some (Some NoResponseBody))
                   | Some (Body reads e) \<Rightarrow>
                       (case readLoop parse [] reads e of
                          (cs, None) \<Rightarrow> (cs, None)
                        | (cs, Some err) \<Rightarrow> (cs, Some (Some err))))) of
        (cs, None) \<Rightarrow> (cs, [FetchCall endpoint])
      | (cs, Some None) \<Rightarrow>
          (case streamEndpoints parse endpoints lastError rest of
             (cs', tr) \<Rightarrow> (cs @ cs', FetchCall endpoint # tr))
      | (cs, Some (Some err)) \<Rightarrow>
          if lastEndpoint endpoints endpoint
          then (cs @ [errorChunk err], [FetchCall endpoint])
          else (case streamEndpoints parse endpoints (Some err) rest of
                  (cs', tr) \<Rightarrow> (cs @ cs', FetchCall endpoint # tr)))"

text \<open>
  \<^verbatim>\<open>AntigravityClient.streamGenerateContent\<close>: an exception of \<^verbatim>\<open>ensureValidToken\<close> leaves
  the generator before any chunk; otherwise the chunks and the calls of the loop.
\<close>

definition streamGenerateContent ::
  "(string \<Rightarrow> json option) \<Rightarrow> int \<Rightarrow> (string \<Rightarrow> error + string \<times> int) \<Rightarrow>
   (AuthTokens \<Rightarrow> error option) \<Rightarrow> AuthTokens option \<Rightarrow>
   (string \<times> (AntigravityRequest \<Rightarrow> (Body option) FetchResult)) list \<Rightarrow>
   string \<Rightarrow> AntigravityRequest \<Rightarrow>
   (error + StreamChunk list) \<times> AuthTokens option \<times> effect list" where
  "streamGenerateContent parse now refresh save toks hosts modelId request =
     (case ensureValidToken now refresh save toks of
        (Inl e, toks', tr) \<Rightarrow> (Inl e, toks', tr)
      | (Inr accessTok, toks', tr) \<Rightarrow>
          (let request' = prepareRequest modelId request in
           case streamEndpoints parse (map fst hosts) None
                  (map (\<lambda>(endpoint, h). (endpoint, h request')) hosts) of
             (cs, calls) \<Rightarrow> (Inr cs, toks', tr @ calls)))"

section \<open>A reference reading of \<^verbatim>\<open>JSON.parse\<close> for the examples\<close>

text \<open>
  The translators take \<^verbatim>\<open>JSON.parse\<close> as an argument, so the general theorems hold for
  whatever it does. The examples need it at concrete texts. \<open>JSON_parse\<close> reads the JSON
  grammar of objects, arrays, strings without escape sequences, integers and the three
  literals, with white space between tokens; on any other text it gives \<open>None\<close>. It is
  \<^verbatim>\<open>JSON.parse\<close> on this fragment only: a valid text with an escape sequence, a fraction
  or an exponent is outside it, and the examples stay inside it. The fuel bounds the
  nesting depth, and the length of the text is always enough.
\<close>

definition skipWs :: "string \<Rightarrow> string" where
  "skipWs s = dropWhile (\<lambda>c. c = CHR '' '' \<or> c = CHR 0x09 \<or> c = CHR 0x0A \<or> c = CHR 0x0D) s"

definition isDigit :: "char \<Rightarrow> bool" where
  "isDigit c \<longleftrightarrow> (let n = (of_char c :: nat) in 48 \<le> n \<and> n \<le> 57)"

definition digitsValue :: "string \<Rightarrow> nat" where
  "digitsValue ds = foldl (\<lambda>acc c. 10 * acc + (of_char c - 48)) 0 ds"

text \<open>The characters of a string literal up to the closing quote, and the rest after it.\<close>

fun parseChars :: "string \<Rightarrow> (string \<times> string) option" where
  "parseChars [] = None"
| "parseChars (c # s) =
     (if c = CHR 0x22 then Some ([], s)
      else if c = CHR 0x5C \<or> of_char c < (32 :: nat) then None
      else (case parseChars s of Some (t, rest) \<Rightarrow> Some (c # t, rest) | None \<Rightarrow> None))"

definition parseNumber :: "string \<Rightarrow> (json \<times> string) option" where
  "parseNumber s =
     (let neg = (s \<noteq> [] \<and> hd s = CHR ''-'');
          s' = (if neg then tl s else s);
          ds = takeWhile isDigit s';
          rest = dropWhile isDigit s'
      in if ds = [] \<or> (length ds > 1 \<and> hd ds = CHR ''0'') then None
         else Some (JNum (if neg then - of_nat (digitsValue ds) else of_nat (digitsValue ds)), rest))"

fun parseValue :: "nat \<Rightarrow> string \<Rightarrow> (json \<times> string) option"
  and parseElements :: "nat \<Rightarrow> string \<Rightarrow> (json list \<times> string) option"
  and parseMembers :: "nat \<Rightarrow> string \<Rightarrow> ((string \<times> json) list \<times> string) option" where
  "parseValue 0 s = None"
| "parseValue (Suc n) s =
     (if startsWith s ''null'' then Some (JNull, drop 4 s)
      else if startsWith s ''true'' then Some (JBool True, drop 4 s)
      else if startsWith s ''false'' then Some (JBool False, drop 5 s)
      else if startsWith s [CHR 0x22] then
        (case parseChars (tl s) of Some (t, rest) \<Rightarrow> Some (JStr t, rest) | None \<Rightarrow> None)
      else if startsWith s ''['' then
        (if startsWith (skipWs (tl s)) '']'' then Some (JArr [], tl (skipWs (tl s)))
         else (case parseElements n (skipWs (tl s)) of
                 Some (vs, rest) \<Rightarrow> Some (JArr vs, rest)
               | None \<Rightarrow> None))
      else if startsWith s ''{'' then
        (if startsWith (skipWs (tl s)) ''}'' then Some (JObj [], tl (skipWs (tl s)))
         else (case parseMembers n (skipWs (tl s)) of
                 Some (kvs, rest) \<Rightarrow> Some (JObj kvs, rest)
               | None \<Rightarrow> None))
      else parseNumber s)"
| "parseElements 0 s = None"
| "parseElements (Suc n) s =
     (case parseValue n s of
        None \<Rightarrow> None
      | Some (v, rest) \<Rightarrow>
          (let r = skipWs rest in
           if startsWith r '']'' then Some ([v], tl r)
           else if startsWith r '','' then
             (case parseElements n (skipWs (tl r)) of
                Some (vs, rest') \<Rightarrow> Some (v # vs, rest')
              | None \<Rightarrow> None)
           else None))"
| "parseMembers 0 s = None"
| "parseMembers (Suc n) s =
     (if \<not> startsWith s [CHR 0x22] then None
      else
        (case parseChars (tl s) of
           None \<Rightarrow> None
         | Some (k, rest) \<Rightarrow>
             (let r = skipWs rest in
              if \<not> startsWith r '':'' then None
              else
                (case parseValue n (skipWs (tl r)) of
                   None \<Rightarrow> None
                 | Some (v, rest') \<Rightarrow>
                     (let r' = skipWs rest' in
                      if startsWith r' ''}'' then Some ([(k, v)], tl r')
                      else if startsWith r' '','' then
                        (case parseMembers n (skipWs (tl r')) of
                           Some (kvs, rest'') \<Rightarrow> Some ((k, v) # kvs, rest'')
                         | None \<Rightarrow> None)
                      else None)))))"

definition JSON_parse :: "string \<Rightarrow> json option" where
  "JSON_parse s =
     (case parseValue (Suc (length s)) (skipWs s) of
        Some (v, rest) \<Rightarrow> if skipWs rest = [] then Some v else None
      | None \<Rightarrow> None)"

section \<open>Inputs of the examples\<close>

text \<open>A credential and an identity provider for the examples.\<close>

definition tok0 :: AuthTokens where
  "tok0 = \<lparr>accessToken = ''old'', refreshToken = ''rt'', expiresAt = 1300000,
           email = None, projectId = ''p''\<rparr>"

definition refresh0 :: "string \<Rightarrow> error + string \<times> int" where
  "refresh0 rt = Inr (''new'', 9000000)"

definition save0 :: "AuthTokens \<Rightarrow> error option" where
  "save0 t = None"

text \<open>
  The two reads of a stream whose concatenation is one record followed by a blank line,
  the payload of that record, and the value of that payload.
\<close>

definition read1 :: string where
  \<open>read1 = ''data: {"response":{"candidates":[{"content":{"parts":[{"te''\<close>

definition read2 :: string where
  \<open>read2 = ''xt":"hi"}]}}]}}\<newline>\<newline>''\<close>

definition payload_hi :: string where
  \<open>payload_hi = ''{"response":{"candidates":[{"content":{"parts":[{"text":"hi"}]}}]}}''\<close>

definition data_hi :: json where
  "data_hi =
     JObj [(''response'',
       JObj [(''candidates'',
         JArr [JObj [(''content'', JObj [(''parts'', JArr [JObj [(''text'', JStr ''hi'')]])])]])])]"

text \<open>One complete record in one read.\<close>

definition read_hi :: string where
  "read_hi = ''data: '' @ payload_hi @ [CHR 0x0A, CHR 0x0A]"

text \<open>
  A usage block; a record with one text part and that block; a record with the block
  alone; and a record with the block whose parts are a text, \<^verbatim>\<open>null\<close> and a text.
\<close>

definition usage0 :: json where
  "usage0 =
     JObj [(''promptTokenCount'', JNum 3), (''candidatesTokenCount'', JNum 5),
           (''totalTokenCount'', JNum 8)]"

definition response_hi_usage :: json where
  "response_hi_usage =
     JObj [(''candidates'',
              JArr [JObj [(''content'', JObj [(''parts'', JArr [JObj [(''text'', JStr ''hi'')]])])]]),
           (''usageMetadata'', usage0)]"

definition data_hi_usage :: json where
  "data_hi_usage = JObj [(''response'', response_hi_usage)]"

definition data_usage_only :: json where
  "data_usage_only = JObj [(''response'', JObj [(''usageMetadata'', usage0)])]"

definition data_null_part :: json where
  "data_null_part =
     JObj [(''response'',
       JObj [(''candidates'',
                JArr [JObj [(''content'',
                  JObj [(''parts'',
                    JArr [JObj [(''text'', JStr ''a'')], JNull, JObj [(''text'', JStr ''b'')]])])]]),
             (''usageMetadata'', usage0)])]"

text \<open>A backend response with one text part, and a body that is never read.\<close>

definition response_hello :: BackendResponse where
  "response_hello =
     \<lparr>candidates = Some
        [\<lparr>cand_content = Some \<lparr>rc_parts = Some
            [\<lparr>rp_text = Some ''Hello'', rp_thought = None, rp_functionCall = None\<rparr>]\<rparr>,
          finishReason = None\<rparr>],
      usageMetadata = None\<rparr>"

text \<open>
  Single-shot call: the first host answers 401 with the body \<^verbatim>\<open>denied\<close>, the second
  answers 200 with \<open>response_hello\<close>, the third is not reached.
\<close>

definition hosts_401 :: "(string \<times> (string + BackendResponse Reply) FetchResult) list" where
  "hosts_401 =
     [(''https://daily-cloudcode-pa.sandbox.googleapis.com'',
         Resolves \<lparr>status = 401, errorText = ''denied'', payload = Inl ''not JSON''\<rparr>),
      (''https://autopush-cloudcode-pa.sandbox.googleapis.com'',
         Resolves \<lparr>status = 200, errorText = [], payload = Inr (Enveloped response_hello)\<rparr>),
      (''https://cloudcode-pa.googleapis.com'',
         Rejects ''unreachable'')]"

text \<open>
  Streaming call: the first host answers 200, delivers one record and then its stream
  breaks; the second answers 200, delivers the same record and ends.
\<close>

definition hosts_fault :: "(string \<times> (Body option) FetchResult) list" where
  "hosts_fault =
     [(''https://daily-cloudcode-pa.sandbox.googleapis.com'',
         Resolves \<lparr>status = 200, errorText = [],
                   payload = Some (Body [read_hi] (ReadFault ''socket closed''))\<rparr>),
      (''https://autopush-cloudcode-pa.sandbox.googleapis.com'',
         Resolves \<lparr>status = 200, errorText = [],
                   payload = Some (Body [read_hi] EndOfStream)\<rparr>),
      (''https://cloudcode-pa.googleapis.com'',
         Rejects ''unreachable'')]"

text \<open>
  Tool results with the content \<^verbatim>\<open>oops\<close>, which is not JSON: one with a tool-call id and
  no name, one with neither.
\<close>

definition msg_tool_oops :: OpenAIMessage where
  "msg_tool_oops =
     \<lparr>role = ''tool'', content = Str ''oops'', name = None, tool_calls = None,
      tool_call_id = Some ''call_1''\<rparr>"

definition msg_tool_no_id :: OpenAIMessage where
  "msg_tool_no_id =
     \<lparr>role = ''tool'', content = Str ''oops'', name = Some ''lookup'', tool_calls = None,
      tool_call_id = None\<rparr>"

text \<open>A user message, an assistant message with empty content, and a chat request.\<close>

definition msg_user_hi :: OpenAIMessage where
  "msg_user_hi =
     \<lparr>role = ''user'', content = Str ''Hi'', name = None, tool_calls = None,
      tool_call_id = None\<rparr>"

definition msg_assistant_empty :: OpenAIMessage where
  "msg_assistant_empty =
     \<lparr>role = ''assistant'', content = Str [], name = None, tool_calls = None,
      tool_call_id = None\<rparr>"

definition request0 :: OpenAIChatRequest where
  "request0 =
     \<lparr>model = ''claude-sonnet-4-5-thinking-low'',
      messages = [msg_user_hi, msg_assistant_empty, msg_tool_oops],
      temperature = None, top_p = None, max_tokens = Some 100, stream = None,
      tools = None, tool_choice = None\<rparr>"

text \<open>
  Backend responses: one text part with empty text, one function call, and one without
  candidates. A source of UUIDs and a rendering of JSON values for them.
\<close>

definition response_empty_text :: BackendResponse where
  "response_empty_text =
     \<lparr>candidates = Some
        [\<lparr>cand_content = Some \<lparr>rc_parts = Some
            [\<lparr>rp_text = Some [], rp_thought = None, rp_functionCall = None\<rparr>]\<rparr>,
          finishReason = None\<rparr>],
      usageMetadata = None\<rparr>"

definition response_call :: BackendResponse where
  "response_call =
     \<lparr>candidates = Some
        [\<lparr>cand_content = Some \<lparr>rc_parts = Some
            [\<lparr>rp_text = None, rp_thought = None,
              rp_functionCall = Some (''lookup'', Some (JObj []))\<rparr>]\<rparr>,
          finishReason = None\<rparr>],
      usageMetadata = None\<rparr>"

definition response_no_candidates :: BackendResponse where
  "response_no_candidates =
     \<lparr>candidates = None,
      usageMetadata = Some \<lparr>promptTokenCount = Some 3, candidatesTokenCount = None,
                             totalTokenCount = Some 3\<rparr>\<rparr>"

definition uuid0 :: "nat \<Rightarrow> string" where
  "uuid0 k = ''0b2f6c1e-7a43-4d1b-9c55-2e8d1f0a6b7c''"

definition stringify0 :: "json \<Rightarrow> string" where
  "stringify0 v = (if v = JObj [] then ''{}'' else ''...'')"

section \<open>Properties\<close>

subsection \<open>Token manager\<close>

lemma ensureValidToken_fresh:
  "\<not> isTokenExpired now (expiresAt t) \<Longrightarrow>
   ensureValidToken now refresh save (Some t) = (Inr (accessToken t), Some t, [])"
  by (simp add: ensureValidToken_def)

lemma ensureValidToken_stale:
  "isTokenExpired now (expiresAt t) \<Longrightarrow>
   refreshCalls (snd (snd (ensureValidToken now refresh save (Some t)))) =
     [RefreshCall (refreshToken t)]"
  by (simp add: ensureValidToken_def refreshCalls_def Let_def split: sum.splits option.splits prod.splits)

text \<open>
  C3 as stated fails on the boundary. The claim asks for a refresh when \<open>expiresAt\<close> is
  exactly five minutes after the clock ("within 5 minutes (inclusive)"); the comparison of
  \<^verbatim>\<open>isTokenExpired\<close> is strict, so at clock \<open>1000000\<close> and \<open>expiresAt = 1300000\<close> no
  refresh call is made and the stored token is returned.
\<close>

theorem C3_inclusive_boundary_counterexample:
  "expiresAt tok0 - 1000000 \<le> 5 * 60 * 1000 \<and>
   ensureValidToken 1000000 refresh0 save0 (Some tok0) = (Inr ''old'', Some tok0, [])"
  by (simp add: ensureValidToken_def isTokenExpired_def tok0_def)

text \<open>
  C3, amended: for every loaded credential, \<^verbatim>\<open>ensureValidToken\<close> performs a refresh-token
  exchange if and only if \<open>expiresAt\<close> is less than five minutes after the current time
  (strictly: \<open>now > expiresAt - 300000\<close>) or in the past. When \<open>expiresAt\<close> is five minutes or
  more in the future it makes no call at all, leaves the credential as it is and returns
  the stored access token; in the refresh case exactly one refresh call is made, with the
  stored refresh token.
\<close>

theorem C3_refresh_iff_strictly_within_buffer:
  "(refreshCalls (snd (snd (ensureValidToken now refresh save (Some t)))) \<noteq> []
      \<longleftrightarrow> expiresAt t - now < 5 * 60 * 1000) \<and>
   (expiresAt t - now \<ge> 5 * 60 * 1000 \<longrightarrow>
      ensureValidToken now refresh save (Some t) = (Inr (accessToken t), Some t, [])) \<and>
   (expiresAt t - now < 5 * 60 * 1000 \<longrightarrow>
      refreshCalls (snd (snd (ensureValidToken now refresh save (Some t)))) =
        [RefreshCall (refreshToken t)])"
proof (cases "isTokenExpired now (expiresAt t)")
  case True
  then have lt: "expiresAt t - now < 5 * 60 * 1000"
    by (simp add: isTokenExpired_def)
  from True show ?thesis
    using lt ensureValidToken_stale [OF True, of refresh save] by simp
next
  case False
  then have ge: "\<not> expiresAt t - now < 5 * 60 * 1000"
    by (simp add: isTokenExpired_def)
  from False show ?thesis
    using ge ensureValidToken_fresh [OF False, of refresh save]
    by (simp add: refreshCalls_def)
qed

theorem C3_refresh_iff_strictly_within_buffer_witness:
  "ensureValidToken 1000000 refresh0 save0 (Some tok0) = (Inr ''old'', Some tok0, []) \<and>
   refreshCalls (snd (snd (ensureValidToken 1000001 refresh0 save0 (Some tok0)))) =
     [RefreshCall ''rt'']"
  using C3_refresh_iff_strictly_within_buffer
          [where now = 1000000 and t = tok0 and refresh = refresh0 and save = save0]
        C3_refresh_iff_strictly_within_buffer
          [where now = 1000001 and t = tok0 and refresh = refresh0 and save = save0]
  by (simp add: tok0_def)

subsection \<open>Evaluation of the examples\<close>

lemmas parser_defs =
  JSON_parse_def skipWs_def startsWith_def parseNumber_def isDigit_def digitsValue_def

lemmas line_defs =
  readStep_def lineChunks_def startsWith_def trim_def whiteSpace_def lineTerminator_def
  continuation_def recordChunks_def firstParts_def usageChunks_def partChunks_def

lemma JSON_parse_payload_hi: "JSON_parse payload_hi = Some data_hi"
  by (simp add: payload_hi_def data_hi_def parser_defs)

lemma readStep_read_hi:
  "parse payload_hi = Some data_hi \<Longrightarrow>
   readStep parse [] read_hi = ([contentChunk (JStr ''hi'')], [])"
  by (simp add: read_hi_def payload_hi_def data_hi_def line_defs)

subsection \<open>Endpoint dispatcher\<close>

text \<open>
  A status that is neither 2xx nor retryable ends the request only on the last host of
  the list; on every other host the loop goes on. The same holds for a stream that
  breaks after a 2xx answer.
\<close>

lemma tryEndpoints_rejected_not_last:
  assumes "\<not> ok (status response)" and "\<not> retryable (status response)"
    and "\<not> lastEndpoint endpoints endpoint"
  shows "tryEndpoints endpoints ((endpoint, Resolves response) # rest) =
           (fst (tryEndpoints endpoints rest),
            FetchCall endpoint # snd (tryEndpoints endpoints rest))"
  using assms by (simp split: prod.splits)

lemma tryEndpoints_rejected_last:
  assumes "\<not> ok (status response)" and "\<not> retryable (status response)"
    and "lastEndpoint endpoints endpoint"
  shows "tryEndpoints endpoints ((endpoint, Resolves response) # rest) =
           (Inl (ApiError (status response) (errorText response)), [FetchCall endpoint])"
  using assms by simp

lemma readLoop_fault:
  "snd (readLoop parse buffer reads (ReadFault msg)) = Some (Thrown msg)"
proof (induction reads arbitrary: buffer)
  case Nil
  show ?case by simp
next
  case (Cons v vs)
  obtain cs buffer' where st: "readStep parse buffer v = (cs, buffer')"
    by (cases "readStep parse buffer v")
  obtain cs' r where lp: "readLoop parse buffer' vs (ReadFault msg) = (cs', r)"
    by (cases "readLoop parse buffer' vs (ReadFault msg)")
  have "r = Some (Thrown msg)"
    using Cons.IH [of buffer'] lp by simp
  then show ?case
    by (simp add: st lp)
qed

lemma streamEndpoints_fault_not_last:
  assumes "ok (status response)"
    and "payload response = Some (Body reads (ReadFault msg))"
    and "\<not> lastEndpoint endpoints endpoint"
  shows "streamEndpoints parse endpoints lastError ((endpoint, Resolves response) # rest) =
           (fst (readLoop parse [] reads (ReadFault msg)) @
              fst (streamEndpoints parse endpoints (Some (Thrown msg)) rest),
            FetchCall endpoint # snd (streamEndpoints parse endpoints (Some (Thrown msg)) rest))"
proof -
  obtain cs where r: "readLoop parse [] reads (ReadFault msg) = (cs, Some (Thrown msg))"
    using readLoop_fault [of parse "[]" reads msg]
    by (cases "readLoop parse [] reads (ReadFault msg)") simp
  show ?thesis
    using assms by (simp add: r split: prod.splits)
qed

lemma streamEndpoints_fault_last:
  assumes "ok (status response)"
    and "payload response = Some (Body reads (ReadFault msg))"
    and "lastEndpoint endpoints endpoint"
  shows "streamEndpoints parse endpoints lastError ((endpoint, Resolves response) # rest) =
           (fst (readLoop parse [] reads (ReadFault msg)) @ [errorChunk (Thrown msg)],
            [FetchCall endpoint])"
proof -
  obtain cs where r: "readLoop parse [] reads (ReadFault msg) = (cs, Some (Thrown msg))"
    using readLoop_fault [of parse "[]" reads msg]
    by (cases "readLoop parse [] reads (ReadFault msg)") simp
  show ?thesis
    using assms by (simp add: r)
qed

text \<open>
  C1 at the failing input: the first host rejects the single-shot call with 401, a status
  that is neither 2xx nor 403, 404 or 5xx. The exception thrown for it is caught by the
  \<^verbatim>\<open>catch\<close> of the same iteration, which rethrows only on the last host: the second host
  is called and its answer is returned, where the claim asks for one call and a terminal
  error with status 401.
\<close>

theorem C1_rejected_status_fails_over:
  "\<not> ok 401 \<and> \<not> retryable 401 \<and>
   tryEndpoints ANTIGRAVITY_ENDPOINTS hosts_401 =
     (Inr response_hello,
      [FetchCall ''https://daily-cloudcode-pa.sandbox.googleapis.com'',
       FetchCall ''https://autopush-cloudcode-pa.sandbox.googleapis.com''])"
  by (simp add: ok_def retryable_def ANTIGRAVITY_ENDPOINTS_def hosts_401_def lastEndpoint_def)

text \<open>
  C2 at the failing input: the first host answers 200 and the chunk of its record has
  been yielded when its stream breaks. The exception of the read is caught by the
  \<^verbatim>\<open>catch\<close> around the whole iteration, and the first host is not the last: the second
  host is called and its chunks follow, where the claim asks for one call and a terminal
  error chunk.
\<close>

theorem C2_fault_after_2xx_fails_over:
  "streamEndpoints JSON_parse ANTIGRAVITY_ENDPOINTS None hosts_fault =
     ([\<lparr>chunk_type = Content, chunk_content = Some (JStr ''hi''), chunk_thinking = None,
        chunk_error = None, chunk_usage = None\<rparr>,
       \<lparr>chunk_type = Content, chunk_content = Some (JStr ''hi''), chunk_thinking = None,
        chunk_error = None, chunk_usage = None\<rparr>,
       \<lparr>chunk_type = Done, chunk_content = None, chunk_thinking = None,
        chunk_error = None, chunk_usage = None\<rparr>],
      [FetchCall ''https://daily-cloudcode-pa.sandbox.googleapis.com'',
       FetchCall ''https://autopush-cloudcode-pa.sandbox.googleapis.com''])"
  by (simp add: ANTIGRAVITY_ENDPOINTS_def hosts_fault_def lastEndpoint_def ok_def
        contentChunk_def doneChunk_def
        readStep_read_hi [of JSON_parse, OF JSON_parse_payload_hi])

subsection \<open>Stream translator\<close>

text \<open>
  Splitting at line feeds commutes with cutting the text into reads: the lines completed
  so far and the carry-over buffer after two reads are those after one read of the
  concatenation, so the chunks of a stream do not depend on where its reads are cut.
\<close>

lemma splitLines_nonempty: "splitLines s \<noteq> []"
  by (induction s) (auto split: list.splits)

lemma splitLines_append:
  "splitLines (a @ b) = butlast (splitLines a) @ splitLines (last (splitLines a) @ b)"
proof (induction a)
  case Nil
  then show ?case by simp
next
  case (Cons c a)
  obtain l ls where s: "splitLines a = l # ls"
    using splitLines_nonempty [of a] by (cases "splitLines a") auto
  show ?case
  proof (cases "c = CHR 0x0A")
    case True
    then show ?thesis
      using Cons s by simp
  next
    case False
    show ?thesis
    proof (cases ls)
      case Nil
      then show ?thesis
        using Cons s False by simp
    next
      case (Cons l' ls')
      then show ?thesis
        using Cons.IH s False by simp
    qed
  qed
qed

lemma readStep_append:
  "readStep parse buffer (v @ w) =
     (fst (readStep parse buffer v) @ fst (readStep parse (snd (readStep parse buffer v)) w),
      snd (readStep parse (snd (readStep parse buffer v)) w))"
proof -
  have "splitLines (buffer @ v @ w) =
          butlast (splitLines (buffer @ v)) @ splitLines (last (splitLines (buffer @ v)) @ w)"
    using splitLines_append [of "buffer @ v" w] by simp
  then show ?thesis
    by (simp add: readStep_def Let_def butlast_append last_append splitLines_nonempty)
qed

lemma readLoop_split_read:
  "readLoop parse buffer (v # w # reads) e = readLoop parse buffer ((v @ w) # reads) e"
  by (simp add: readStep_append split: prod.splits)

lemma splitLines_no_line_feed: "CHR 0x0A \<notin> set s \<Longrightarrow> splitLines s = [s]"
  by (induction s) auto

lemma partsLoop_no_null:
  "JNull \<notin> set ps \<Longrightarrow> partsLoop ps = (concat (map partChunks ps), True)"
proof (induction ps)
  case Nil
  show ?case by simp
next
  case (Cons part ps)
  then have "part \<noteq> JNull" and "partsLoop ps = (concat (map partChunks ps), True)"
    by auto
  then show ?case
    by (cases part) simp_all
qed

text \<open>
  A part that is \<^verbatim>\<open>null\<close> ends the record: the chunk of the part before it has been
  yielded, the part after it and the usage block are skipped.
\<close>

lemma recordChunks_null_part:
  "recordChunks data_null_part = [contentChunk (JStr ''a'')]"
  by (simp add: data_null_part_def usage0_def recordChunks_def firstParts_def partChunks_def)

text \<open>
  C4 as stated fails. The tag of a chunk has the four values \<^verbatim>\<open>content\<close>, \<^verbatim>\<open>thinking\<close>,
  \<^verbatim>\<open>done\<close> and \<^verbatim>\<open>error\<close>; the chunk that carries the usage counts of a record is tagged
  \<^verbatim>\<open>content\<close> and has no text. A record with a usage block and no parts list yields no
  chunk at all.
\<close>

theorem C4_usage_chunk_tagged_content_counterexample:
  "recordChunks data_hi_usage =
     [\<lparr>chunk_type = Content, chunk_content = Some (JStr ''hi''), chunk_thinking = None,
        chunk_error = None, chunk_usage = None\<rparr>,
      \<lparr>chunk_type = Content, chunk_content = None, chunk_thinking = None,
       chunk_error = None,
       chunk_usage = Some \<lparr>promptTokens = Some (JNum 3), completionTokens = Some (JNum 5),
                           totalTokens = Some (JNum 8)\<rparr>\<rparr>] \<and>
   optProp (getProp data_usage_only ''response'') ''usageMetadata'' = Some usage0 \<and>
   truthy usage0 \<and>
   recordChunks data_usage_only = []"
  by (simp add: recordChunks_def data_hi_usage_def response_hi_usage_def data_usage_only_def
        firstParts_def usageChunks_def partChunks_def contentChunk_def usageChunk_def
        usage0_def)

text \<open>
  C4, amended: for every parsed backend stream record whose first candidate has a parts
  array with no \<^verbatim>\<open>null\<close> element and whose response holds a truthy usage block, the stream
  translator yields, after the chunks of the parts, one chunk that is tagged \<^verbatim>\<open>content\<close>,
  has no text, and carries the prompt, completion and total token counts of the block.
\<close>

theorem C4_usage_chunk_after_parts:
  assumes "getProp d ''response'' = Some r"
    and "firstParts (Some r) = Some (JArr ps)"
    and "JNull \<notin> set ps"
    and "getProp r ''usageMetadata'' = Some u"
    and "truthy u"
  shows "recordChunks d =
           concat (map partChunks ps) @
           [\<lparr>chunk_type = Content, chunk_content = None, chunk_thinking = None,
             chunk_error = None,
             chunk_usage = Some \<lparr>promptTokens = getProp u ''promptTokenCount'',
                                 completionTokens = getProp u ''candidatesTokenCount'',
                                 totalTokens = getProp u ''totalTokenCount''\<rparr>\<rparr>]"
proof -
  have "d \<noteq> JNull"
    using assms(1) by auto
  then show ?thesis
    using assms partsLoop_no_null [of ps]
    by (simp add: recordChunks_def usageChunks_def usageChunk_def)
qed

theorem C4_usage_chunk_after_parts_witness:
  "recordChunks data_hi_usage =
     [\<lparr>chunk_type = Content, chunk_content = Some (JStr ''hi''), chunk_thinking = None,
        chunk_error = None, chunk_usage = None\<rparr>,
      \<lparr>chunk_type = Content, chunk_content = None, chunk_thinking = None,
       chunk_error = None,
       chunk_usage = Some \<lparr>promptTokens = Some (JNum 3), completionTokens = Some (JNum 5),
                           totalTokens = Some (JNum 8)\<rparr>\<rparr>]"
  using C4_usage_chunk_after_parts
          [where d = data_hi_usage and r = response_hi_usage and u = usage0
             and ps = "[JObj [(''text'', JStr ''hi'')]]"]
  by (simp add: data_hi_usage_def response_hi_usage_def usage0_def firstParts_def
        partChunks_def contentChunk_def)

text \<open>
  C6: two consecutive reads whose concatenation is the record
  \<^verbatim>\<open>data: {"response":{"candidates":[{"content":{"parts":[{"text":"hi"}]}}]}}\<close> followed
  by a blank line yield, wherever the text is cut, exactly one content chunk, with the
  text \<^verbatim>\<open>hi\<close>, and \<^verbatim>\<open>done\<close> at the end of the stream. When the cut is inside the line
  (the first read holds no line feed), the first read yields nothing and leaves its whole
  text in the carry-over buffer; the second read completes the line from that buffer,
  yields the chunk and leaves the buffer empty. The only assumption on \<^verbatim>\<open>JSON.parse\<close> is
  its value at the payload of the record.
\<close>

theorem C6_split_record_reassembled:
  assumes "parse payload_hi = Some data_hi"
    and "v @ w = ''data: '' @ payload_hi @ [CHR 0x0A, CHR 0x0A]"
  shows "readLoop parse [] [v, w] EndOfStream =
           ([\<lparr>chunk_type = Content, chunk_content = Some (JStr ''hi''), chunk_thinking = None,
        chunk_error = None, chunk_usage = None\<rparr>,
             \<lparr>chunk_type = Done, chunk_content = None, chunk_thinking = None,
        chunk_error = None, chunk_usage = None\<rparr>], None) \<and>
         (CHR 0x0A \<notin> set v \<longrightarrow>
            readStep parse [] v = ([], v) \<and>
            readStep parse v w =
              ([\<lparr>chunk_type = Content, chunk_content = Some (JStr ''hi''), chunk_thinking = None,
        chunk_error = None, chunk_usage = None\<rparr>], []))"
proof -
  have whole: "readStep parse [] (v @ w) = ([contentChunk (JStr ''hi'')], [])"
    using readStep_read_hi [of parse, OF assms(1)] assms(2) by (simp add: read_hi_def)
  have "readLoop parse [] [v, w] EndOfStream = readLoop parse [] [v @ w] EndOfStream"
    by (rule readLoop_split_read)
  then have loop: "readLoop parse [] [v, w] EndOfStream =
                     ([contentChunk (JStr ''hi''), doneChunk], None)"
    by (simp add: whole)
  have cut: "readStep parse [] v = ([], v) \<and>
             readStep parse v w = ([contentChunk (JStr ''hi'')], [])"
    if "CHR 0x0A \<notin> set v"
  proof -
    have first: "readStep parse [] v = ([], v)"
      using that by (simp add: readStep_def splitLines_no_line_feed)
    have "readStep parse [] (v @ w) =
            (fst (readStep parse [] v) @ fst (readStep parse (snd (readStep parse [] v)) w),
             snd (readStep parse (snd (readStep parse [] v)) w))"
      by (rule readStep_append)
    then have "readStep parse v w = ([contentChunk (JStr ''hi'')], [])"
      using whole by (simp add: first prod_eq_iff)
    then show ?thesis
      using first by simp
  qed
  show ?thesis
    using loop cut by (simp add: contentChunk_def doneChunk_def)
qed

theorem C6_split_record_reassembled_witness:
  "readLoop JSON_parse [] [read1, read2] EndOfStream =
     ([\<lparr>chunk_type = Content, chunk_content = Some (JStr ''hi''), chunk_thinking = None,
        chunk_error = None, chunk_usage = None\<rparr>,
       \<lparr>chunk_type = Done, chunk_content = None, chunk_thinking = None,
        chunk_error = None, chunk_usage = None\<rparr>], None) \<and>
   readStep JSON_parse [] read1 = ([], read1) \<and>
   readStep JSON_parse read1 read2 =
     ([\<lparr>chunk_type = Content, chunk_content = Some (JStr ''hi''), chunk_thinking = None,
        chunk_error = None, chunk_usage = None\<rparr>], [])"
proof -
  have cat: "read1 @ read2 = ''data: '' @ payload_hi @ [CHR 0x0A, CHR 0x0A]"
    by (simp add: read1_def read2_def payload_hi_def)
  have inside: "CHR 0x0A \<notin> set read1"
    by (simp add: read1_def)
  show ?thesis
    using C6_split_record_reassembled [of JSON_parse read1 read2, OF JSON_parse_payload_hi cat]
          inside
    by blast
qed

subsection \<open>Request translator\<close>

lemma JSON_parse_oops: "JSON_parse ''oops'' = None"
  by (simp add: parser_defs)

text \<open>
  C7 as stated fails: the branch for tool results is guarded by
  \<^verbatim>\<open>msg.role === "tool" && msg.tool_call_id\<close>. A tool-role message without a tool-call id
  is translated like a user message: its content \<^verbatim>\<open>oops\<close> becomes a text part, not a
  function-response part, although the message declares a tool name.
\<close>

theorem C7_tool_without_call_id_counterexample:
  "role msg_tool_no_id = ''tool'' \<and>
   convertMessage JSON_parse msg_tool_no_id =
     Some \<lparr>turn_role = RoleUser, parts = [Text ''oops'']\<rparr>"
  by (simp add: convertMessage_def msg_tool_no_id_def)

text \<open>
  C7, amended: for every tool-role message that carries a non-empty tool-call id,
  translation produces a user turn holding a single function-response part. The part is
  keyed by the declared tool name, and by the tool-call id when the name is absent or
  empty. For a string content its body is the parsed value when \<^verbatim>\<open>JSON.parse\<close> accepts the
  content and \<^verbatim>\<open>{result: <content>}\<close> when it throws; an array content is the body as it
  is. The translation returns a turn for every such message and every behaviour of
  \<^verbatim>\<open>JSON.parse\<close>.
\<close>

theorem C7_tool_result_translation:
  assumes "role msg = ''tool''" and "truthyStr (tool_call_id msg)"
  shows "convertMessage parse msg =
           Some \<lparr>turn_role = RoleUser,
                 parts = [FunctionResponse
                            (if truthyStr (name msg) then the (name msg)
                             else the (tool_call_id msg))
                            (case content msg of
                               Str s \<Rightarrow>
                                 (case parse s of
                                    None \<Rightarrow> Json (JObj [(''result'', JStr s)])
                                  | Some v \<Rightarrow> Json v)
                             | Items items \<Rightarrow> RawItems items)]\<rparr>"
  using assms by (cases "content msg") (simp_all add: convertMessage_def split: option.splits)

theorem C7_tool_result_translation_witness:
  "convertMessage JSON_parse msg_tool_oops =
     Some \<lparr>turn_role = RoleUser,
           parts = [FunctionResponse ''call_1'' (Json (JObj [(''result'', JStr ''oops'')]))]\<rparr>"
  using C7_tool_result_translation [of msg_tool_oops JSON_parse] JSON_parse_oops
  by (simp add: msg_tool_oops_def)









subsection \<open>Response translator\<close>

lemma foldl_partStep_text:
  "fst (foldl (partStep uuid stringify off) (t, toolCalls) ps) =
     t @ concat (map (\<lambda>p. if rp_thought p = Some True then []
                             else if truthyStr (rp_text p) then the (rp_text p) else []) ps)"
  by (induction ps arbitrary: t toolCalls) (simp_all add: partStep_def)

lemma foldl_partStep_calls:
  "length (snd (foldl (partStep uuid stringify off) (t, toolCalls) ps)) =
     length toolCalls +
     length (filter (\<lambda>p. rp_thought p \<noteq> Some True \<and> rp_functionCall p \<noteq> None) ps)"
  by (induction ps arbitrary: t toolCalls)
     (auto simp: partStep_def split: option.splits)

lemma choiceOf_finish_reason:
  "finish_reason (choiceOf uuid stringify off candidate) =
     Some (if finishReason candidate = Some ''MAX_TOKENS'' then Length
           else if \<exists>p \<in> set (candidateParts candidate).
                     rp_thought p \<noteq> Some True \<and> rp_functionCall p \<noteq> None
           then ToolCalls
           else Stop)"
proof -
  obtain t toolCalls where
    f: "foldl (partStep uuid stringify off) ([], []) (candidateParts candidate) = (t, toolCalls)"
    by (cases "foldl (partStep uuid stringify off) ([], []) (candidateParts candidate)")
  have "length toolCalls =
          length (filter (\<lambda>p. rp_thought p \<noteq> Some True \<and> rp_functionCall p \<noteq> None)
                    (candidateParts candidate))"
    using foldl_partStep_calls [of uuid stringify off "[]" "[]" "candidateParts candidate"] f
    by simp
  then have "length toolCalls > 0 \<longleftrightarrow>
               (\<exists>p \<in> set (candidateParts candidate).
                  rp_thought p \<noteq> Some True \<and> rp_functionCall p \<noteq> None)"
    by (simp add: filter_empty_conv)
  then show ?thesis
    using f by (simp add: choiceOf_def)
qed

text \<open>
  C9 as stated fails on its last sentence: a text part whose text is the empty string
  is a non-thought text part, and the sole choice built from it has the content
  \<^verbatim>\<open>null\<close> (\<^verbatim>\<open>content || null\<close>), not that text.
\<close>

theorem C9_empty_text_content_null_counterexample:
  "choices (convertAntigravityToOpenAI uuid0 stringify0 1700000000000 response_empty_text ''m'' None) =
     [\<lparr>choice_index = 0,
       message = \<lparr>msg_content = None, msg_tool_calls = None\<rparr>,
       finish_reason = Some Stop\<rparr>]"
  by (simp add: convertAntigravityToOpenAI_def response_empty_text_def choiceOf_def
        candidateParts_def partStep_def)

text \<open>
  C9, amended: for every backend response with at least one candidate, the translated
  response has one choice, built from the first candidate. Its finish reason is
  \<^verbatim>\<open>length\<close> when the candidate's finish reason is \<^verbatim>\<open>MAX_TOKENS\<close>, otherwise
  \<^verbatim>\<open>tool_calls\<close> when at least one part that is not flagged as a thought holds a function
  call, and otherwise \<^verbatim>\<open>stop\<close>. In particular a first candidate with one non-thought
  text part, no function call and no finish reason yields a sole choice with finish
  reason \<^verbatim>\<open>stop\<close> whose content is that text when the text is not empty, and \<^verbatim>\<open>null\<close>
  when it is empty.
\<close>

theorem C9_finish_reason:
  assumes "candidates response = Some (candidate # others)"
  shows "map finish_reason
           (choices (convertAntigravityToOpenAI uuid stringify now response modelId requestId)) =
           [Some (if finishReason candidate = Some ''MAX_TOKENS'' then Length
                  else if \<exists>p \<in> set (candidateParts candidate).
                            rp_thought p \<noteq> Some True \<and> rp_functionCall p \<noteq> None
                  then ToolCalls
                  else Stop)] \<and>
         (candidateParts candidate = [p] \<and> rp_thought p \<noteq> Some True \<and>
          rp_text p = Some tx \<and> rp_functionCall p = None \<and> finishReason candidate = None \<longrightarrow>
            choices (convertAntigravityToOpenAI uuid stringify now response modelId requestId) =
              [\<lparr>choice_index = 0,
                message = \<lparr>msg_content = (if tx \<noteq> [] then Some tx else None),
                           msg_tool_calls = None\<rparr>,
                finish_reason = Some Stop\<rparr>])"
proof -
  have ch: "choices (convertAntigravityToOpenAI uuid stringify now response modelId requestId) =
              [choiceOf uuid stringify (if truthyStr requestId then 0 else 1) candidate]"
    using assms by (simp add: convertAntigravityToOpenAI_def)
  have idx: "choice_index (choiceOf uuid stringify off candidate) = 0" for off
    by (simp add: choiceOf_def split: prod.splits)
  have one: "candidateParts candidate = [p] \<and> rp_thought p \<noteq> Some True \<and>
          rp_text p = Some tx \<and> rp_functionCall p = None \<and> finishReason candidate = None \<longrightarrow>
          choiceOf uuid stringify off candidate =
              \<lparr>choice_index = 0,
                message = \<lparr>msg_content = (if tx \<noteq> [] then Some tx else None),
                           msg_tool_calls = None\<rparr>,
                finish_reason = Some Stop\<rparr>" for off
    by (simp add: choiceOf_def partStep_def)
  show ?thesis
    using one by (simp add: ch choiceOf_finish_reason)
qed

theorem C9_finish_reason_witness:
  "choices (convertAntigravityToOpenAI uuid0 stringify0 1700000000000 response_hello ''m'' None) =
     [\<lparr>choice_index = 0,
       message = \<lparr>msg_content = Some ''Hello'', msg_tool_calls = None\<rparr>,
       finish_reason = Some Stop\<rparr>] \<and>
   map finish_reason
     (choices (convertAntigravityToOpenAI uuid0 stringify0 1700000000000 response_call ''m'' None)) =
     [Some ToolCalls]"
  using C9_finish_reason
          [where response = response_hello and uuid = uuid0 and stringify = stringify0
             and now = 1700000000000 and modelId = "''m''" and requestId = None
             and candidate = "\<lparr>cand_content = Some \<lparr>rc_parts = Some
                 [\<lparr>rp_text = Some ''Hello'', rp_thought = None, rp_functionCall = None\<rparr>]\<rparr>,
                 finishReason = None\<rparr>"
             and others = "[]"
             and p = "\<lparr>rp_text = Some ''Hello'', rp_thought = None, rp_functionCall = None\<rparr>"
             and tx = "''Hello''"]
        C9_finish_reason
          [where response = response_call and uuid = uuid0 and stringify = stringify0
             and now = 1700000000000 and modelId = "''m''" and requestId = None
             and candidate = "\<lparr>cand_content = Some \<lparr>rc_parts = Some
                 [\<lparr>rp_text = None, rp_thought = None,
                   rp_functionCall = Some (''lookup'', Some (JObj []))\<rparr>]\<rparr>,
                 finishReason = None\<rparr>"
             and others = "[]"]
  by (simp add: response_hello_def response_call_def candidateParts_def)

text \<open>
  C10: for every backend response whose candidates list is absent or empty, the
  translation returns a response with no choices that carries the id (the request id
  given, or \<^verbatim>\<open>chatcmpl-\<close> and a fresh UUID when none or an empty one is given), the model
  id, the creation time in seconds, and the usage counts when the backend gave a usage
  block, each count that is missing being zero.
\<close>

theorem C10_no_candidates:
  assumes "candidates response = None \<or> candidates response = Some []"
  shows "convertAntigravityToOpenAI uuid stringify now response modelId requestId =
           \<lparr>resp_id = (if truthyStr requestId then the requestId else ''chatcmpl-'' @ uuid 0),
            created = now div 1000,
            resp_model = modelId,
            choices = [],
            usage = map_option
                      (\<lambda>u. \<lparr>prompt_tokens = orZero (promptTokenCount u),
                            completion_tokens = orZero (candidatesTokenCount u),
                            total_tokens = orZero (totalTokenCount u)\<rparr>)
                      (usageMetadata response)\<rparr>"
  using assms
  by (auto simp: convertAntigravityToOpenAI_def split: option.splits)

theorem C10_no_candidates_witness:
  "convertAntigravityToOpenAI uuid0 stringify0 1700000000999 response_no_candidates ''m'' None =
     \<lparr>resp_id = ''chatcmpl-0b2f6c1e-7a43-4d1b-9c55-2e8d1f0a6b7c'',
      created = 1700000000,
      resp_model = ''m'',
      choices = [],
      usage = Some \<lparr>prompt_tokens = 3, completion_tokens = 0, total_tokens = 3\<rparr>\<rparr>"
  using C10_no_candidates
          [where response = response_no_candidates and uuid = uuid0 and stringify = stringify0
             and now = 1700000000999 and modelId = "''m''" and requestId = None]
  by (simp add: response_no_candidates_def uuid0_def)


subsection \<open>Request preparation\<close>

lemma budget_model_ids:
  assumes "map_of AVAILABLE_MODELS modelId = Some info" and "m_thinkingBudget info = Some b"
  shows "modelId \<in> {''claude-sonnet-4-5-thinking-low'', ''claude-sonnet-4-5-thinking-medium'',
                     ''claude-sonnet-4-5-thinking-high'', ''claude-opus-4-5-thinking-low'',
                     ''claude-opus-4-5-thinking-medium'', ''claude-opus-4-5-thinking-high''} \<and>
         b \<noteq> 0 \<and> m_thinkingLevel info = None"
  using assms by (auto simp: AVAILABLE_MODELS_def split: if_splits)

lemma isClaude_budget_models:
  "includes_str (toLowerCase ''claude-sonnet-4-5-thinking-low'') ''claude''"
  "includes_str (toLowerCase ''claude-sonnet-4-5-thinking-medium'') ''claude''"
  "includes_str (toLowerCase ''claude-sonnet-4-5-thinking-high'') ''claude''"
  "includes_str (toLowerCase ''claude-opus-4-5-thinking-low'') ''claude''"
  "includes_str (toLowerCase ''claude-opus-4-5-thinking-medium'') ''claude''"
  "includes_str (toLowerCase ''claude-opus-4-5-thinking-high'') ''claude''"
  by (simp_all add: toLowerCase_def toLowerChar_def startsWith_def)

lemma resolveModel_budget:
  assumes "map_of AVAILABLE_MODELS modelId = Some info" and "m_thinkingBudget info = Some b"
  shows "resolveModel modelId =
           (modelId, Some \<lparr>rt_thinkingLevel = None, rt_thinkingBudget = Some b\<rparr>, True)"
proof -
  have ids: "modelId \<in> {''claude-sonnet-4-5-thinking-low'', ''claude-sonnet-4-5-thinking-medium'',
                     ''claude-sonnet-4-5-thinking-high'', ''claude-opus-4-5-thinking-low'',
                     ''claude-opus-4-5-thinking-medium'', ''claude-opus-4-5-thinking-high''}"
    and lvl: "m_thinkingLevel info = None"
    using budget_model_ids [OF assms] by simp_all
  have "includes_str (toLowerCase modelId) ''claude''"
    using ids isClaude_budget_models by auto
  then show ?thesis
    using assms lvl by (simp add: resolveModel_def)
qed

lemma applyThinkingConfig_budget:
  assumes "b \<noteq> 0"
  shows "generationConfig
           (applyToolMode True
              (applyThinkingConfig (Some \<lparr>rt_thinkingLevel = None, rt_thinkingBudget = Some b\<rparr>)
                 True request)) =
         Some ((case generationConfig request of Some g \<Rightarrow> g | None \<Rightarrow> emptyGenerationConfig)
                 \<lparr>thinkingConfig := Some
                     \<lparr>includeThoughts = None, thinkingLevel = None, thinkingBudget = None,
                      include_thoughts = Some True, thinking_budget = Some b\<rparr>,
                  maxOutputTokens := Some
                     (max (orZero (maxOutputTokens
                        (case generationConfig request of Some g \<Rightarrow> g
                         | None \<Rightarrow> emptyGenerationConfig))) 65536)\<rparr>)"
  using assms by (simp add: applyThinkingConfig_def applyToolMode_def Let_def)

lemma generationConfig_convert:
  "generationConfig (convertOpenAIToAntigravity parse request) = generationConfigOf request"
  by (simp add: convertOpenAIToAntigravity_def Let_def)

lemma maxOutputTokens_generationConfigOf:
  "orZero (maxOutputTokens (case generationConfigOf request of Some g \<Rightarrow> g
                            | None \<Rightarrow> emptyGenerationConfig)) = orZero (max_tokens request)"
  by (cases "max_tokens request") (simp_all add: generationConfigOf_def emptyGenerationConfig_def)

text \<open>
  C5: for every chat request that names a model of the registry with a thinking budget,
  the request sent to the backend (by the single-shot and by the streaming call, which
  prepare it alike) has a generation config whose \<^verbatim>\<open>maxOutputTokens\<close> is the larger of
  the caller's \<^verbatim>\<open>max_tokens\<close> and 65536: at least 65536, raised to 65536 from any lower
  or missing value, and left as it is when higher. Its thinking config carries
  \<^verbatim>\<open>include_thoughts: true\<close> and the budget of the model.
\<close>

theorem C5_budget_model_max_output_tokens:
  assumes "map_of AVAILABLE_MODELS (model request) = Some info"
    and "m_thinkingBudget info = Some b"
  shows "generationConfig
           (prepareRequest (model request) (convertOpenAIToAntigravity parse request)) \<noteq> None \<and>
         maxOutputTokens (the (generationConfig
           (prepareRequest (model request) (convertOpenAIToAntigravity parse request)))) =
           Some (max (orZero (max_tokens request)) 65536) \<and>
         max (orZero (max_tokens request)) 65536 \<ge> 65536 \<and>
         (max_tokens request = None \<longrightarrow> max (orZero (max_tokens request)) 65536 = 65536) \<and>
         (max_tokens request = Some m \<and> m \<le> 65536 \<longrightarrow>
            max (orZero (max_tokens request)) 65536 = 65536) \<and>
         (max_tokens request = Some m \<and> m \<ge> 65536 \<longrightarrow>
            max (orZero (max_tokens request)) 65536 = m) \<and>
         thinkingConfig (the (generationConfig
           (prepareRequest (model request) (convertOpenAIToAntigravity parse request)))) =
           Some \<lparr>includeThoughts = None, thinkingLevel = None, thinkingBudget = None,
                 include_thoughts = Some True, thinking_budget = Some b\<rparr>"
proof -
  have b: "b \<noteq> 0"
    using budget_model_ids [OF assms] by simp
  have "prepareRequest (model request) (convertOpenAIToAntigravity parse request) =
          applyToolMode True
            (applyThinkingConfig (Some \<lparr>rt_thinkingLevel = None, rt_thinkingBudget = Some b\<rparr>)
               True (convertOpenAIToAntigravity parse request))"
    by (simp add: prepareRequest_def resolveModel_budget [OF assms])
  then have gc: "generationConfig
      (prepareRequest (model request) (convertOpenAIToAntigravity parse request)) =
      Some ((case generationConfigOf request of Some g \<Rightarrow> g | None \<Rightarrow> emptyGenerationConfig)
                 \<lparr>thinkingConfig := Some
                     \<lparr>includeThoughts = None, thinkingLevel = None, thinkingBudget = None,
                      include_thoughts = Some True, thinking_budget = Some b\<rparr>,
                  maxOutputTokens := Some (max (orZero (max_tokens request)) 65536)\<rparr>)"
    using applyThinkingConfig_budget [OF b, of "convertOpenAIToAntigravity parse request"]
    by (simp add: generationConfig_convert maxOutputTokens_generationConfigOf)
  show ?thesis
    by (simp add: gc)
qed

theorem C5_budget_model_max_output_tokens_witness:
  "maxOutputTokens (the (generationConfig
     (prepareRequest (model request0) (convertOpenAIToAntigravity JSON_parse request0)))) =
     Some 65536 \<and>
   thinkingConfig (the (generationConfig
     (prepareRequest (model request0) (convertOpenAIToAntigravity JSON_parse request0)))) =
     Some \<lparr>includeThoughts = None, thinkingLevel = None, thinkingBudget = None,
           include_thoughts = Some True, thinking_budget = Some 8192\<rparr>"
  using C5_budget_model_max_output_tokens
          [where request = request0 and parse = JSON_parse and b = 8192 and m = 100
             and info = "\<lparr>owned_by = ''anthropic'', context_length = 200000,
                           m_thinkingLevel = None, m_thinkingBudget = Some 8192\<rparr>"]
  by (simp add: request0_def AVAILABLE_MODELS_def)


end
